theory Spec2Isabelle
  imports Complex_Main
begin

section \<open>Python values, exceptions and dictionaries\<close>

text \<open>
  The sources pass untyped JSON-like data around (\<^verbatim>\<open>Dict[str, Any]\<close>).  A value is
  one of the JSON shapes.  Python floats are modelled by exact rationals: every float
  literal of the sources (0.1 ... 0.8, 30.0, 0.85) stands for the rational it is written
  as, and \<^verbatim>\<open>min\<close>, \<^verbatim>\<open>max\<close>, \<^verbatim>\<open>>\<close> are the exact ones.
\<close>

datatype pyval =
    PNone
  | PBool bool
  | PInt int
  | PFloat rat
  | PStr string
  | PList "pyval list"
  | PDict "(string \<times> pyval) list"

type_synonym pydict = "(string \<times> pyval) list"

text \<open>
  An exception raised by the code is a value.  \<open>Raised msg\<close> stands for any exception a
  collaborator outside the modelled files raises.  A result \<open>Inl e\<close> says that the call
  raised \<open>e\<close>; \<open>Inr x\<close> that it returned \<open>x\<close>.  A call that changes a store returns
  the store it leaves beside its outcome, also when it raises.
\<close>

datatype exn =
    AttributeError
  | TypeError
  | KeyError
  | IntegrityError
  | Raised string

definition ebind :: "exn + 'a \<Rightarrow> ('a \<Rightarrow> exn + 'b) \<Rightarrow> exn + 'b" where
  "ebind m f = (case m of Inl e \<Rightarrow> Inl e | Inr x \<Rightarrow> f x)"

text \<open>Truth value testing (\<^verbatim>\<open>if x:\<close>, \<^verbatim>\<open>x and y\<close>, \<^verbatim>\<open>x or y\<close>).\<close>

fun truthy :: "pyval \<Rightarrow> bool" where
  "truthy PNone = False"
| "truthy (PBool b) = b"
| "truthy (PInt i) = (i \<noteq> 0)"
| "truthy (PFloat r) = (r \<noteq> 0)"
| "truthy (PStr s) = (s \<noteq> [])"
| "truthy (PList xs) = (xs \<noteq> [])"
| "truthy (PDict kvs) = (kvs \<noteq> [])"

text \<open>\<^verbatim>\<open>d.get(k, default)\<close> on a value known to be a dict.\<close>

definition dict_get :: "pydict \<Rightarrow> string \<Rightarrow> pyval \<Rightarrow> pyval" where
  "dict_get d k dflt = (case map_of d k of None \<Rightarrow> dflt | Some v \<Rightarrow> v)"

text \<open>
  \<^verbatim>\<open>x.get(k, default)\<close> on any value: only a dict has the method, every other
  JSON value raises AttributeError.
\<close>

definition py_get :: "pyval \<Rightarrow> string \<Rightarrow> pyval \<Rightarrow> exn + pyval" where
  "py_get x k dflt = (case x of PDict d \<Rightarrow> Inr (dict_get d k dflt) | _ \<Rightarrow> Inl AttributeError)"

text \<open>
  \<^verbatim>\<open>x[k]\<close> with a string key: KeyError on a dict without the key, TypeError on
  every other JSON value (a str, a list, a number and None do not take a string index).
\<close>

definition py_getitem :: "pyval \<Rightarrow> string \<Rightarrow> exn + pyval" where
  "py_getitem x k =
     (case x of
        PDict d \<Rightarrow> (case map_of d k of None \<Rightarrow> Inl KeyError | Some v \<Rightarrow> Inr v)
      | _ \<Rightarrow> Inl TypeError)"

text \<open>
  \<^verbatim>\<open>for v in x\<close>: a list yields its elements, a str its characters, a dict its
  keys; None, bool, int and float are not iterable (TypeError).
\<close>

definition py_iter :: "pyval \<Rightarrow> exn + pyval list" where
  "py_iter x =
     (case x of
        PList xs \<Rightarrow> Inr xs
      | PStr s \<Rightarrow> Inr (map (\<lambda>c. PStr [c]) s)
      | PDict d \<Rightarrow> Inr (map (\<lambda>kv. PStr (fst kv)) d)
      | _ \<Rightarrow> Inl TypeError)"

text \<open>The number a value denotes in arithmetic and comparisons (bool is an int).\<close>

definition py_num :: "pyval \<Rightarrow> exn + rat" where
  "py_num x =
     (case x of
        PInt i \<Rightarrow> Inr (of_int i)
      | PFloat r \<Rightarrow> Inr r
      | PBool b \<Rightarrow> Inr (if b then 1 else 0)
      | _ \<Rightarrow> Inl TypeError)"

text \<open>
  String formatting inside an f-string (\<^verbatim>\<open>f"...{v}"\<close>).  A str is inserted as it
  is; the rendering of every other value is Python's \<^verbatim>\<open>format\<close>, taken as the
  parameter \<open>fmt\<close>.
\<close>

definition py_format :: "(pyval \<Rightarrow> string) \<Rightarrow> pyval \<Rightarrow> string" where
  "py_format fmt v = (case v of PStr s \<Rightarrow> s | _ \<Rightarrow> fmt v)"

section \<open>Persistent memory (src/memory/persistent\_memory.py)\<close>

text \<open>A \<^verbatim>\<open>datetime\<close> is a count of microseconds.\<close>

type_synonym datetime = int

record MemoryEvent =
  ev_id :: string
  ev_timestamp :: datetime
  ev_type :: string
  ev_data :: pydict
  ev_importance :: rat
  ev_tags :: "string list"

record UserPreference =
  pref_category :: string
  preference_key :: string
  preference_value :: pyval
  pref_confidence :: rat
  learned_from :: "string list"
  last_updated :: datetime

record FeedbackRow =
  fb_event_id :: string
  fb_type :: string
  fb_value :: pyval
  fb_timestamp :: datetime

text \<open>
  The state of a \<^verbatim>\<open>PersistentMemory\<close>: the two in-memory caches and the three
  SQLite tables the modelled methods touch, each table a map from its primary key to its
  row.  \<^verbatim>\<open>json.dumps\<close> followed by \<^verbatim>\<open>json.loads\<close> is the identity
  on \<open>pyval\<close>, so a row holds the value itself.
\<close>

record PersistentMemory =
  recent_events :: "MemoryEvent list"
  user_preferences :: "string \<rightharpoonup> UserPreference"
  db_memory_events :: "string \<rightharpoonup> MemoryEvent"
  db_user_preferences :: "(string \<times> string) \<rightharpoonup> UserPreference"
  db_user_feedback :: "string \<rightharpoonup> FeedbackRow"

text \<open>A memory over a fresh database: \<^verbatim>\<open>__init__\<close> finds nothing to load.\<close>

definition PersistentMemory_init :: PersistentMemory where
  "PersistentMemory_init =
     \<lparr> recent_events = [], user_preferences = Map.empty, db_memory_events = Map.empty,
       db_user_preferences = Map.empty, db_user_feedback = Map.empty \<rparr>"

text \<open>
  \<^verbatim>\<open>add_event\<close>.  \<open>stamp\<close> is the \<^verbatim>\<open>strftime\<close> rendering of the first
  clock reading, \<open>now\<close> the second reading.  \<^verbatim>\<open>tags or []\<close> turns a missing
  list into the empty one.  The event joins the in-memory cache (cut to its last 1000
  entries) before the INSERT, which raises IntegrityError when the id is already a
  primary key of the table; the cache keeps the event then.  The result is the id
  returned or the exception raised, and the memory the call leaves.
\<close>

definition add_event ::
  "PersistentMemory \<Rightarrow> string \<Rightarrow> datetime \<Rightarrow> string \<Rightarrow> pydict \<Rightarrow> rat \<Rightarrow> string list option
     \<Rightarrow> (exn + string) \<times> PersistentMemory" where
  "add_event s stamp now event_type data importance tags =
     (let event_id = event_type @ ''_'' @ stamp;
          tags' = (case tags of None \<Rightarrow> [] | Some ts \<Rightarrow> ts);
          event = \<lparr> ev_id = event_id, ev_timestamp = now, ev_type = event_type,
                    ev_data = data, ev_importance = importance, ev_tags = tags' \<rparr>;
          cache = recent_events s @ [event];
          s1 = s\<lparr> recent_events :=
                   (if length cache > 1000 then drop (length cache - 1000) cache else cache) \<rparr>
      in case db_memory_events s event_id of
           Some row \<Rightarrow> (Inl IntegrityError, s1)
         | None \<Rightarrow>
             (Inr event_id, s1\<lparr> db_memory_events := (db_memory_events s)(event_id \<mapsto> event) \<rparr>))"

text \<open>\<^verbatim>\<open>get_event\<close>: the in-memory cache first, then the table.\<close>

definition get_event :: "PersistentMemory \<Rightarrow> string \<Rightarrow> MemoryEvent option" where
  "get_event s event_id =
     (case find (\<lambda>e. ev_id e = event_id) (recent_events s) of
        Some e \<Rightarrow> Some e
      | None \<Rightarrow> db_memory_events s event_id)"

text \<open>
  \<^verbatim>\<open>_update_preference\<close> (a name cannot start with an underscore here).  An
  existing entry is updated in place with \<^verbatim>\<open>min(1.0, confidence + boost)\<close>; a
  new one starts at \<^verbatim>\<open>max(0.0, 0.5 + boost)\<close>.  The row written to the table
  has the call's category and key and the entry's other fields.
\<close>

definition update_preference ::
  "PersistentMemory \<Rightarrow> datetime \<Rightarrow> string \<Rightarrow> string \<Rightarrow> pyval \<Rightarrow> string \<Rightarrow> rat
     \<Rightarrow> PersistentMemory" where
  "update_preference s now category pkey pvalue event_id confidence_boost =
     (let full_key = category @ ''.'' @ pkey;
          pref = (case user_preferences s full_key of
                    Some p \<Rightarrow>
                      p\<lparr> preference_value := pvalue,
                         pref_confidence := min 1 (pref_confidence p + confidence_boost),
                         learned_from := learned_from p @ [event_id],
                         last_updated := now \<rparr>
                  | None \<Rightarrow>
                      \<lparr> pref_category = category, preference_key = pkey,
                        preference_value = pvalue,
                        pref_confidence = max 0 (1/2 + confidence_boost),
                        learned_from = [event_id], last_updated = now \<rparr>)
      in s\<lparr> user_preferences := (user_preferences s)(full_key \<mapsto> pref),
            db_user_preferences := (db_user_preferences s)((category, pkey) \<mapsto>
               pref\<lparr> pref_category := category, preference_key := pkey \<rparr>) \<rparr>)"

text \<open>\<^verbatim>\<open>get_preference\<close>: the value and confidence, or the default and 0.0.\<close>

definition get_preference ::
  "PersistentMemory \<Rightarrow> string \<Rightarrow> string \<Rightarrow> pyval \<Rightarrow> pyval \<times> rat" where
  "get_preference s category pkey dflt =
     (case user_preferences s (category @ ''.'' @ pkey) of
        Some p \<Rightarrow> (preference_value p, pref_confidence p)
      | None \<Rightarrow> (dflt, 0))"

text \<open>
  The four learners.  Each reads the feedback value with \<^verbatim>\<open>.get\<close>, so a
  feedback value that is not a dict raises AttributeError.  A learner returns the
  exception it raised, if any, and the memory it leaves.  All clock readings of one
  feedback call are the one \<open>now\<close>.
\<close>

definition update_classification_preference ::
  "(pyval \<Rightarrow> string) \<Rightarrow> PersistentMemory \<Rightarrow> datetime \<Rightarrow> MemoryEvent \<Rightarrow> pyval
     \<Rightarrow> exn option \<times> PersistentMemory" where
  "update_classification_preference fmt s now event correction =
     (let original_classification = dict_get (ev_data event) ''classification_result'' PNone
      in case py_get correction ''correct_category'' PNone of
           Inl e \<Rightarrow> (Some e, s)
         | Inr corrected_classification \<Rightarrow>
             if truthy original_classification \<and> truthy corrected_classification then
               (let sender = dict_get (ev_data event) ''email_sender'' (PStr '''');
                    s1 = (if truthy sender
                          then update_preference s now ''classification''
                                 (''sender_category_'' @ py_format fmt sender)
                                 corrected_classification (ev_id event) (3/10)
                          else s);
                    keywords = dict_get (ev_data event) ''email_keywords'' (PList [])
                in case py_iter keywords of
                     Inl e \<Rightarrow> (Some e, s1)
                   | Inr ks \<Rightarrow>
                       (None,
                        foldl (\<lambda>st keyword.
                                 update_preference st now ''classification''
                                   (''keyword_category_'' @ py_format fmt keyword)
                                   corrected_classification (ev_id event) (2/10)) s1 ks))
             else (None, s))"

definition update_response_preference ::
  "(pyval \<Rightarrow> string) \<Rightarrow> PersistentMemory \<Rightarrow> datetime \<Rightarrow> MemoryEvent \<Rightarrow> pyval
     \<Rightarrow> exn option \<times> PersistentMemory" where
  "update_response_preference fmt s now event approval =
     (case py_get approval ''approved'' (PBool False) of
        Inl e \<Rightarrow> (Some e, s)
      | Inr approved \<Rightarrow>
          (let response_style = dict_get (ev_data event) ''response_style'' (PStr '''');
               intent = dict_get (ev_data event) ''intent'' (PStr '''')
           in if truthy intent \<and> truthy response_style then
                (None,
                 update_preference s now ''response''
                   (''intent_style_'' @ py_format fmt intent)
                   (PDict [(''style'', response_style), (''approved'', approved)])
                   (ev_id event)
                   (if truthy approved then 4/10 else - (2/10)))
              else (None, s)))"

definition update_organization_preference ::
  "(pyval \<Rightarrow> string) \<Rightarrow> PersistentMemory \<Rightarrow> datetime \<Rightarrow> MemoryEvent \<Rightarrow> pyval
     \<Rightarrow> exn option \<times> PersistentMemory" where
  "update_organization_preference fmt s now event preference =
     (case py_get preference ''action'' PNone of
        Inl e \<Rightarrow> (Some e, s)
      | Inr org_action \<Rightarrow>
          (let sender = dict_get (ev_data event) ''email_sender'' (PStr '''')
           in if truthy org_action \<and> truthy sender then
                (None,
                 update_preference s now ''organization''
                   (''sender_action_'' @ py_format fmt sender)
                   org_action (ev_id event) (3/10))
              else (None, s)))"

text \<open>
  In \<^verbatim>\<open>sender and abs(original - adjusted) > 1\<close> the subtraction is evaluated
  only for a truthy sender; it raises TypeError unless both priorities are numbers.
\<close>

definition update_priority_preference ::
  "(pyval \<Rightarrow> string) \<Rightarrow> PersistentMemory \<Rightarrow> datetime \<Rightarrow> MemoryEvent \<Rightarrow> pyval
     \<Rightarrow> exn option \<times> PersistentMemory" where
  "update_priority_preference fmt s now event priority_adjustment =
     (let original_priority = dict_get (ev_data event) ''calculated_priority'' (PInt 0)
      in case py_get priority_adjustment ''correct_priority'' (PInt 0) of
           Inl e \<Rightarrow> (Some e, s)
         | Inr adjusted_priority \<Rightarrow>
             (let sender = dict_get (ev_data event) ''email_sender'' (PStr '''')
              in if truthy sender then
                   (case ebind (py_num original_priority) (\<lambda>a.
                         ebind (py_num adjusted_priority) (\<lambda>b. Inr (a - b))) of
                      Inl e \<Rightarrow> (Some e, s)
                    | Inr d \<Rightarrow>
                        if abs d > 1 then
                          (None,
                           update_preference s now ''priority''
                             (''sender_priority_'' @ py_format fmt sender)
                             adjusted_priority (ev_id event) (4/10))
                        else (None, s))
                 else (None, s)))"

text \<open>
  \<^verbatim>\<open>_learn_from_feedback\<close>: returns at once when the event is not found; a
  feedback type that is none of the four learns nothing.
\<close>

definition learn_from_feedback ::
  "(pyval \<Rightarrow> string) \<Rightarrow> PersistentMemory \<Rightarrow> datetime \<Rightarrow> string \<Rightarrow> string \<Rightarrow> pyval
     \<Rightarrow> exn option \<times> PersistentMemory" where
  "learn_from_feedback fmt s now event_id feedback_type feedback_value =
     (case get_event s event_id of
        None \<Rightarrow> (None, s)
      | Some event \<Rightarrow>
          if feedback_type = ''classification_correction''
            then update_classification_preference fmt s now event feedback_value
          else if feedback_type = ''response_approval''
            then update_response_preference fmt s now event feedback_value
          else if feedback_type = ''organization_preference''
            then update_organization_preference fmt s now event feedback_value
          else if feedback_type = ''priority_adjustment''
            then update_priority_preference fmt s now event feedback_value
          else (None, s))"

text \<open>
  \<^verbatim>\<open>add_user_feedback\<close>: the feedback row is inserted and committed first
  (IntegrityError when its id is taken), then the learner runs.
\<close>

definition add_user_feedback ::
  "(pyval \<Rightarrow> string) \<Rightarrow> PersistentMemory \<Rightarrow> string \<Rightarrow> datetime \<Rightarrow> string \<Rightarrow> string \<Rightarrow> pyval
     \<Rightarrow> exn option \<times> PersistentMemory" where
  "add_user_feedback fmt s stamp now event_id feedback_type feedback_value =
     (let feedback_id = ''feedback_'' @ stamp
      in case db_user_feedback s feedback_id of
           Some row \<Rightarrow> (Some IntegrityError, s)
         | None \<Rightarrow>
             learn_from_feedback fmt
               (s\<lparr> db_user_feedback := (db_user_feedback s)(feedback_id \<mapsto>
                     \<lparr> fb_event_id = event_id, fb_type = feedback_type,
                       fb_value = feedback_value, fb_timestamp = now \<rparr>) \<rparr>)
               now event_id feedback_type feedback_value)"

section \<open>Performance monitor (src/monitoring/performance\_monitor.py)\<close>

text \<open>
  \<^verbatim>\<open>PerformanceMetric\<close>; its fields \<^verbatim>\<open>value\<close>, \<^verbatim>\<open>timestamp\<close> and
  \<^verbatim>\<open>context\<close> carry the prefix \<open>metric_\<close>.  Durations are seconds, as rationals.
\<close>

record PerformanceMetric =
  metric_name :: string
  metric_value :: rat
  metric_timestamp :: datetime
  agent_name :: string
  metric_context :: pydict

text \<open>The dict \<^verbatim>\<open>start_operation\<close> stores for an operation in flight.\<close>

record Operation =
  op_agent_name :: string
  operation_type :: string
  start_time :: rat
  op_context :: pydict

text \<open>
  One agent's entry of \<^verbatim>\<open>agent_stats\<close>; the two histograms are
  \<^verbatim>\<open>defaultdict(int)\<close>, a missing key counting 0.
\<close>

record AgentStats =
  total_operations :: nat
  successful_operations :: nat
  failed_operations :: nat
  total_execution_time :: rat
  tool_usage :: "string \<rightharpoonup> nat"
  error_types :: "string \<rightharpoonup> nat"

record Thresholds =
  max_execution_time :: rat
  min_success_rate :: rat
  max_memory_usage :: rat
  max_error_rate :: rat

text \<open>
  The calls of \<^verbatim>\<open>logger.warning\<close>, each with the values its message is
  formatted from.  Debug and info lines are not modelled.
\<close>

datatype warning =
    OperationNotFound string
  | SlowOperation string rat
  | LowSuccessRate string rat
  | HighMemoryUsage string int

text \<open>
  The monitor: both buffers are \<^verbatim>\<open>deque(maxlen=buffer_size)\<close>; the snapshot
  buffer is written by \<^verbatim>\<open>take_performance_snapshot\<close> only and is left out.
  \<open>warnings\<close> is the log, oldest first.
\<close>

record PerformanceMonitor =
  buffer_size :: nat
  metrics_buffer :: "PerformanceMetric list"
  active_operations :: "string \<rightharpoonup> Operation"
  agent_stats :: "string \<rightharpoonup> AgentStats"
  thresholds :: Thresholds
  warnings :: "warning list"

definition PerformanceMonitor_init :: "nat \<Rightarrow> PerformanceMonitor" where
  "PerformanceMonitor_init n =
     \<lparr> buffer_size = n, metrics_buffer = [], active_operations = Map.empty,
       agent_stats = Map.empty,
       thresholds = \<lparr> max_execution_time = 30, min_success_rate = 85/100,
                      max_memory_usage = 100, max_error_rate = 15/100 \<rparr>,
       warnings = [] \<rparr>"

text \<open>The module's global instance: \<^verbatim>\<open>PerformanceMonitor()\<close>, buffer size 1000.\<close>

definition performance_monitor :: PerformanceMonitor where
  "performance_monitor = PerformanceMonitor_init 1000"

text \<open>
  \<^verbatim>\<open>deque.append\<close> on a bounded deque: the item is appended on the right, and
  when the length then exceeds \<open>maxlen\<close> one item is dropped from the left.
\<close>

definition deque_append :: "nat \<Rightarrow> 'a list \<Rightarrow> 'a \<Rightarrow> 'a list" where
  "deque_append maxlen xs x = (let ys = xs @ [x] in if length ys > maxlen then tl ys else ys)"

text \<open>
  Reading \<^verbatim>\<open>agent_stats[agent_name]\<close>: the \<^verbatim>\<open>defaultdict\<close> yields the
  entry, a fresh all-zero one for an agent not seen before.
\<close>

definition default_stats :: AgentStats where
  "default_stats =
     \<lparr> total_operations = 0, successful_operations = 0, failed_operations = 0,
       total_execution_time = 0, tool_usage = Map.empty, error_types = Map.empty \<rparr>"

definition stats_entry :: "PerformanceMonitor \<Rightarrow> string \<Rightarrow> AgentStats" where
  "stats_entry m a = (case agent_stats m a of None \<Rightarrow> default_stats | Some st \<Rightarrow> st)"

definition count_of :: "(string \<rightharpoonup> nat) \<Rightarrow> string \<Rightarrow> nat" where
  "count_of h k = (case h k of None \<Rightarrow> 0 | Some n \<Rightarrow> n)"

text \<open>
  \<^verbatim>\<open>start_operation\<close>: \<open>now\<close> is \<^verbatim>\<open>time.time()\<close>.  An id already in flight
  is overwritten.
\<close>

definition start_operation ::
  "PerformanceMonitor \<Rightarrow> rat \<Rightarrow> string \<Rightarrow> string \<Rightarrow> string \<Rightarrow> pydict option \<Rightarrow> PerformanceMonitor"
  where
  "start_operation m now operation_id agent optype ctx =
     m\<lparr> active_operations := (active_operations m)(operation_id \<mapsto>
          \<lparr> op_agent_name = agent, operation_type = optype, start_time = now,
            op_context = (case ctx of None \<Rightarrow> [] | Some c \<Rightarrow> c) \<rparr>) \<rparr>"

text \<open>
  \<^verbatim>\<open>_check_performance_thresholds\<close>: a warning for an execution time above
  \<^verbatim>\<open>max_execution_time\<close>, and, once the agent has 10 operations or more, a
  warning for a success rate below \<^verbatim>\<open>min_success_rate\<close>.  Reading
  \<^verbatim>\<open>agent_stats[agent_name]\<close> stores the entry it yields.
\<close>

definition check_performance_thresholds ::
  "PerformanceMonitor \<Rightarrow> string \<Rightarrow> rat \<Rightarrow> bool \<Rightarrow> PerformanceMonitor" where
  "check_performance_thresholds m agent execution_time success =
     (let slow = (if execution_time > max_execution_time (thresholds m)
                  then [SlowOperation agent execution_time] else []);
          stats = stats_entry m agent;
          total_ops = total_operations stats;
          low = (if total_ops \<ge> 10 then
                   (let success_rate = of_nat (successful_operations stats) / of_nat total_ops
                    in if success_rate < min_success_rate (thresholds m)
                       then [LowSuccessRate agent success_rate] else [])
                 else [])
      in m\<lparr> agent_stats := (agent_stats m)(agent \<mapsto> stats),
            warnings := warnings m @ slow @ low \<rparr>)"

text \<open>
  \<^verbatim>\<open>end_operation\<close>: \<open>end_time\<close> is \<^verbatim>\<open>time.time()\<close>, \<open>now\<close> is
  \<^verbatim>\<open>datetime.now()\<close>.  An id that is not in flight logs a warning and returns.
  Otherwise the record is popped, the agent's counters are updated, the metric is
  appended to the buffer and the thresholds are checked.
\<close>

definition end_operation ::
  "PerformanceMonitor \<Rightarrow> rat \<Rightarrow> datetime \<Rightarrow> string \<Rightarrow> bool \<Rightarrow> pydict option \<Rightarrow> string option
     \<Rightarrow> PerformanceMonitor" where
  "end_operation m end_time now operation_id success result_data error_info =
     (case active_operations m operation_id of
        None \<Rightarrow> m\<lparr> warnings := warnings m @ [OperationNotFound operation_id] \<rparr>
      | Some operation \<Rightarrow>
          (let execution_time = end_time - start_time operation;
               agent = op_agent_name operation;
               stats = stats_entry m agent;
               stats1 = stats\<lparr> total_operations := total_operations stats + 1,
                              total_execution_time := total_execution_time stats + execution_time \<rparr>;
               stats2 =
                 (if success
                  then stats1\<lparr> successful_operations := successful_operations stats1 + 1 \<rparr>
                  else (let st = stats1\<lparr> failed_operations := failed_operations stats1 + 1 \<rparr>
                        in case error_info of
                             None \<Rightarrow> st
                           | Some e \<Rightarrow>
                               if e \<noteq> [] then
                                 st\<lparr> error_types :=
                                       (error_types st)(e \<mapsto> count_of (error_types st) e + 1) \<rparr>
                               else st));
               metric = \<lparr> metric_name = ''operation_execution_time'',
                          metric_value = execution_time,
                          metric_timestamp = now,
                          agent_name = agent,
                          metric_context =
                            [(''operation_type'', PStr (operation_type operation)),
                             (''success'', PBool success),
                             (''result_data'',
                                PDict (case result_data of None \<Rightarrow> [] | Some d \<Rightarrow> d)),
                             (''error_info'',
                                (case error_info of None \<Rightarrow> PNone | Some e \<Rightarrow> PStr e))] \<rparr>
           in check_performance_thresholds
                (m\<lparr> active_operations := (active_operations m)(operation_id := None),
                    agent_stats := (agent_stats m)(agent \<mapsto> stats2),
                    metrics_buffer := deque_append (buffer_size m) (metrics_buffer m) metric \<rparr>)
                agent execution_time success))"

text \<open>\<^verbatim>\<open>record_tool_usage\<close> and \<^verbatim>\<open>record_memory_usage\<close>, the other writers of the buffer.\<close>

definition record_tool_usage ::
  "PerformanceMonitor \<Rightarrow> datetime \<Rightarrow> string \<Rightarrow> string \<Rightarrow> rat \<Rightarrow> bool \<Rightarrow> PerformanceMonitor" where
  "record_tool_usage m now agent tool_name execution_time success =
     (let stats = stats_entry m agent;
          stats1 = stats\<lparr> tool_usage :=
                     (tool_usage stats)(tool_name \<mapsto> count_of (tool_usage stats) tool_name + 1) \<rparr>;
          metric = \<lparr> metric_name = ''tool_execution_time'',
                     metric_value = execution_time,
                     metric_timestamp = now,
                     agent_name = agent,
                     metric_context = [(''tool_name'', PStr tool_name), (''success'', PBool success)] \<rparr>
      in m\<lparr> agent_stats := (agent_stats m)(agent \<mapsto> stats1),
            metrics_buffer := deque_append (buffer_size m) (metrics_buffer m) metric \<rparr>)"

definition record_memory_usage ::
  "PerformanceMonitor \<Rightarrow> datetime \<Rightarrow> string \<Rightarrow> (string \<times> int) list \<Rightarrow> PerformanceMonitor" where
  "record_memory_usage m now agent memory_stats =
     (let total_memory = sum_list (map snd memory_stats);
          metric = \<lparr> metric_name = ''memory_usage'',
                     metric_value = of_int total_memory,
                     metric_timestamp = now,
                     agent_name = agent,
                     metric_context = map (\<lambda>kv. (fst kv, PInt (snd kv))) memory_stats \<rparr>
      in m\<lparr> metrics_buffer := deque_append (buffer_size m) (metrics_buffer m) metric,
            warnings := warnings m @
              (if of_int total_memory > max_memory_usage (thresholds m)
               then [HighMemoryUsage agent total_memory] else []) \<rparr>)"

text \<open>
  A call of one of the four methods above, and a run of calls in order.  The
  property tests of the buffer are stated over runs.
\<close>

datatype monitor_call =
    StartOperation rat string string string "pydict option"
  | EndOperation rat datetime string bool "pydict option" "string option"
  | RecordToolUsage datetime string string rat bool
  | RecordMemoryUsage datetime string "(string \<times> int) list"

fun apply_call :: "PerformanceMonitor \<Rightarrow> monitor_call \<Rightarrow> PerformanceMonitor" where
  "apply_call m (StartOperation now oid agent optype ctx) = start_operation m now oid agent optype ctx"
| "apply_call m (EndOperation end_time now oid success rd ei) =
     end_operation m end_time now oid success rd ei"
| "apply_call m (RecordToolUsage now agent tool t success) =
     record_tool_usage m now agent tool t success"
| "apply_call m (RecordMemoryUsage now agent stats) = record_memory_usage m now agent stats"

text \<open>
  One tracked operation from start to end (\<open>tr_\<close> fields: the arguments and clock
  readings of the two calls), and the metric its end records.
\<close>

record TrackedOperation =
  tr_operation_id :: string
  tr_agent :: string
  tr_type :: string
  tr_context :: "pydict option"
  tr_started :: rat
  tr_ended :: rat
  tr_now :: datetime
  tr_success :: bool
  tr_result_data :: "pydict option"
  tr_error_info :: "string option"

definition track :: "PerformanceMonitor \<Rightarrow> TrackedOperation \<Rightarrow> PerformanceMonitor" where
  "track m c =
     end_operation
       (start_operation m (tr_started c) (tr_operation_id c) (tr_agent c) (tr_type c) (tr_context c))
       (tr_ended c) (tr_now c) (tr_operation_id c) (tr_success c) (tr_result_data c)
       (tr_error_info c)"

definition metric_of :: "TrackedOperation \<Rightarrow> PerformanceMetric" where
  "metric_of c =
     \<lparr> metric_name = ''operation_execution_time'',
       metric_value = tr_ended c - tr_started c,
       metric_timestamp = tr_now c,
       agent_name = tr_agent c,
       metric_context =
         [(''operation_type'', PStr (tr_type c)),
          (''success'', PBool (tr_success c)),
          (''result_data'', PDict (case tr_result_data c of None \<Rightarrow> [] | Some d \<Rightarrow> d)),
          (''error_info'', (case tr_error_info c of None \<Rightarrow> PNone | Some e \<Rightarrow> PStr e))] \<rparr>"

section \<open>Orchestrator (src/agent/email\_master\_agent.py, src/agent/base.py)\<close>

text \<open>\<^verbatim>\<open>workflow_settings\<close>, with the values \<^verbatim>\<open>__init__\<close> gives them.\<close>

record WorkflowSettings =
  auto_classify :: bool
  auto_organize :: bool
  auto_generate_responses :: bool
  auto_send_responses :: bool
  parallel_processing :: bool
  batch_size :: nat

definition workflow_settings :: WorkflowSettings where
  "workflow_settings =
     \<lparr> auto_classify = True, auto_organize = True, auto_generate_responses = True,
       auto_send_responses = False, parallel_processing = True, batch_size = 20 \<rparr>"

subsection \<open>The analysis pipeline\<close>

text \<open>
  The dict \<^verbatim>\<open>results\<close> of \<^verbatim>\<open>run_email_analysis_pipeline\<close>: its four keys
  are fixed, the three sections hold whatever the branches returned.
\<close>

record AnalysisResults =
  total_emails :: nat
  classification_results :: pyval
  organization_suggestions :: pyval
  response_candidates :: pyval

text \<open>
  The three sub-agent calls (\<^verbatim>\<open>_run_classification_batch\<close>,
  \<^verbatim>\<open>_run_organization_analysis\<close>, \<^verbatim>\<open>_run_response_generation\<close>).  What a
  call does is the sub-agents' business; the model takes its outcome, the dict returned
  or the exception raised, as an input \<open>outcome :: branch \<Rightarrow> exn + pydict\<close>.
\<close>

datatype branch = ClassificationBranch | OrganizationBranch | ResponseBranch

text \<open>
  One round of the loop over \<^verbatim>\<open>as_completed\<close>: a future that raised is logged and
  contributes nothing; a result is filed under the first of the keys
  \<^verbatim>\<open>classifications\<close>, \<^verbatim>\<open>organization\<close>, \<^verbatim>\<open>responses\<close> it has.
\<close>

definition collect_result :: "AnalysisResults \<Rightarrow> exn + pydict \<Rightarrow> AnalysisResults" where
  "collect_result results outcome =
     (case outcome of
        Inl e \<Rightarrow> results
      | Inr r \<Rightarrow>
          (case map_of r ''classifications'' of
             Some v \<Rightarrow> results\<lparr> classification_results := v \<rparr>
           | None \<Rightarrow>
               (case map_of r ''organization'' of
                  Some v \<Rightarrow> results\<lparr> organization_suggestions := v \<rparr>
                | None \<Rightarrow>
                    (case map_of r ''responses'' of
                       Some v \<Rightarrow> results\<lparr> response_candidates := v \<rparr>
                     | None \<Rightarrow> results))))"

text \<open>
  \<^verbatim>\<open>run_email_analysis_pipeline\<close>.  With \<^verbatim>\<open>parallel_processing\<close> the three
  futures are collected in the order \<open>completion\<close> in which they finish, and nothing is
  raised.  Without it the three calls run in turn, each section is assigned the whole
  dict its call returns, and the first exception leaves the function.
\<close>

definition run_email_analysis_pipeline ::
  "WorkflowSettings \<Rightarrow> (branch \<Rightarrow> exn + pydict) \<Rightarrow> branch list \<Rightarrow> pydict list
     \<Rightarrow> exn + AnalysisResults" where
  "run_email_analysis_pipeline settings outcome completion emails =
     (let results = \<lparr> total_emails = length emails, classification_results = PList [],
                      organization_suggestions = PList [], response_candidates = PList [] \<rparr>
      in if parallel_processing settings then
           Inr (foldl collect_result results (map outcome completion))
         else
           ebind (outcome ClassificationBranch) (\<lambda>c.
           ebind (outcome OrganizationBranch) (\<lambda>og.
           ebind (outcome ResponseBranch) (\<lambda>r.
             Inr (results\<lparr> classification_results := PDict c,
                           organization_suggestions := PDict og,
                           response_candidates := PDict r \<rparr>)))))"

subsection \<open>Planning\<close>

text \<open>The dict \<^verbatim>\<open>execution_plan\<close>: four lists of action dicts.\<close>

record ExecutionPlan =
  immediate_actions :: "pyval list"
  user_approval_needed :: "pyval list"
  scheduled_actions :: "pyval list"
  completed_actions :: "pyval list"

text \<open>A loop whose body can raise: the first exception ends it.\<close>

fun efold :: "('s \<Rightarrow> 'a \<Rightarrow> exn + 's) \<Rightarrow> 's \<Rightarrow> 'a list \<Rightarrow> exn + 's" where
  "efold f s [] = Inr s"
| "efold f s (x # xs) = ebind (f s x) (\<lambda>s'. efold f s' xs)"

text \<open>\<^verbatim>\<open>x > c\<close> for a float literal \<open>c\<close>: TypeError unless \<open>x\<close> is a number.\<close>

definition py_gt :: "pyval \<Rightarrow> rat \<Rightarrow> exn + bool" where
  "py_gt x c = ebind (py_num x) (\<lambda>v. Inr (v > c))"

text \<open>
  The body of the loop over the classification results:
  \<^verbatim>\<open>if classification.get("confidence", 0) > 0.7\<close> files an
  \<^verbatim>\<open>apply_classification\<close> action under the immediate actions, and otherwise a
  \<^verbatim>\<open>review_classification\<close> action under those that need approval.
\<close>

definition plan_classification :: "ExecutionPlan \<Rightarrow> pyval \<Rightarrow> exn + ExecutionPlan" where
  "plan_classification p classification =
     ebind (py_get classification ''confidence'' (PInt 0)) (\<lambda>conf.
     ebind (py_gt conf (7/10)) (\<lambda>above.
     ebind (py_getitem classification ''email_id'') (\<lambda>email_id.
     ebind (py_getitem classification ''category'') (\<lambda>category.
     ebind (py_getitem classification ''confidence'') (\<lambda>confidence.
       if above then
         Inr (p\<lparr> immediate_actions := immediate_actions p @
                [PDict [(''type'', PStr ''apply_classification''),
                        (''email_id'', email_id),
                        (''category'', category),
                        (''confidence'', confidence)]] \<rparr>)
       else
         Inr (p\<lparr> user_approval_needed := user_approval_needed p @
                [PDict [(''type'', PStr ''review_classification''),
                        (''email_id'', email_id),
                        (''suggested_category'', category),
                        (''confidence'', confidence)]] \<rparr>))))))"

text \<open>The body of the loop over the organization suggestions: no confidence test.\<close>

definition plan_organization :: "ExecutionPlan \<Rightarrow> pyval \<Rightarrow> exn + ExecutionPlan" where
  "plan_organization p suggestion =
     ebind (py_getitem suggestion ''action'') (\<lambda>action.
     ebind (py_getitem suggestion ''target'') (\<lambda>target.
     ebind (py_get suggestion ''confidence'' (PFloat (1/2))) (\<lambda>confidence.
       Inr (p\<lparr> immediate_actions := immediate_actions p @
              [PDict [(''type'', PStr ''apply_organization''),
                      (''action'', action),
                      (''target'', target),
                      (''confidence'', confidence)]] \<rparr>))))"

text \<open>
  The body of the loop over the response candidates.  The confidence is read and
  compared only when \<^verbatim>\<open>auto_send_responses\<close> is set (\<^verbatim>\<open>and\<close> evaluates its
  second operand only then).
\<close>

definition plan_response :: "WorkflowSettings \<Rightarrow> ExecutionPlan \<Rightarrow> pyval \<Rightarrow> exn + ExecutionPlan" where
  "plan_response settings p response =
     ebind (if auto_send_responses settings
            then ebind (py_get response ''confidence'' (PInt 0)) (\<lambda>conf. py_gt conf (8/10))
            else Inr False) (\<lambda>send.
       if send then
         ebind (py_getitem response ''email_id'') (\<lambda>email_id.
         ebind (py_getitem response ''response_text'') (\<lambda>response_text.
           Inr (p\<lparr> immediate_actions := immediate_actions p @
                  [PDict [(''type'', PStr ''send_response''),
                          (''email_id'', email_id),
                          (''response_text'', response_text)]] \<rparr>)))
       else
         ebind (py_getitem response ''email_id'') (\<lambda>email_id.
         ebind (py_getitem response ''response_text'') (\<lambda>response_text.
         ebind (py_get response ''confidence'' (PInt 0)) (\<lambda>confidence.
           Inr (p\<lparr> user_approval_needed := user_approval_needed p @
                  [PDict [(''type'', PStr ''review_response''),
                          (''email_id'', email_id),
                          (''response_text'', response_text),
                          (''confidence'', confidence)]] \<rparr>)))))"

text \<open>\<^verbatim>\<open>coordinate_workflow_execution\<close>: the three loops in turn.\<close>

definition coordinate_workflow_execution ::
  "WorkflowSettings \<Rightarrow> AnalysisResults \<Rightarrow> exn + ExecutionPlan" where
  "coordinate_workflow_execution settings analysis =
     (let execution_plan0 = \<lparr> immediate_actions = [], user_approval_needed = [],
                              scheduled_actions = [], completed_actions = [] \<rparr>
      in ebind (if auto_classify settings
                then ebind (py_iter (classification_results analysis))
                       (efold plan_classification execution_plan0)
                else Inr execution_plan0) (\<lambda>p1.
         ebind (if auto_organize settings
                then ebind (py_iter (organization_suggestions analysis))
                       (efold plan_organization p1)
                else Inr p1) (\<lambda>p2.
         ebind (py_iter (response_candidates analysis))
           (efold (plan_response settings) p2))))"

subsection \<open>Execution\<close>

text \<open>
  The two mailbox tools \<^verbatim>\<open>_execute_single_action\<close> calls.  The orchestrator is
  modelled over any pair of tools; \<open>email_tools\<close> is the pair of
  src/tools/email\_tools.py, which logs and returns True.
\<close>

record EmailTools =
  add_label :: "pyval \<Rightarrow> pyval \<Rightarrow> exn + bool"
  archive_email :: "pyval \<Rightarrow> exn + bool"

definition email_tools :: EmailTools where
  "email_tools = \<lparr> add_label = (\<lambda>email_id label. Inr True), archive_email = (\<lambda>email_id. Inr True) \<rparr>"

text \<open>
  \<^verbatim>\<open>_execute_single_action\<close>.  An action of unknown type, and an organization
  action that is neither \<^verbatim>\<open>apply_label\<close> nor \<^verbatim>\<open>archive\<close>, reach the final
  \<^verbatim>\<open>return False\<close>.
\<close>

definition execute_single_action ::
  "EmailTools \<Rightarrow> (pyval \<Rightarrow> string) \<Rightarrow> pyval \<Rightarrow> exn + bool" where
  "execute_single_action tools fmt action =
     ebind (py_get action ''type'' PNone) (\<lambda>action_type.
       if action_type = PStr ''apply_classification'' then
         ebind (py_getitem action ''email_id'') (\<lambda>email_id.
         ebind (py_getitem action ''category'') (\<lambda>category.
           add_label tools email_id (PStr (''category:'' @ py_format fmt category))))
       else if action_type = PStr ''apply_organization'' then
         ebind (py_getitem action ''action'') (\<lambda>org_action.
         ebind (py_getitem action ''target'') (\<lambda>target.
           if org_action = PStr ''apply_label'' then
             ebind (py_getitem action ''value'') (\<lambda>label. add_label tools target label)
           else if org_action = PStr ''archive'' then archive_email tools target
           else Inr False))
       else if action_type = PStr ''send_response'' then
         ebind (py_getitem action ''email_id'') (\<lambda>email_id.
         ebind (py_getitem action ''response_text'') (\<lambda>response_text. Inr True))
       else Inr False)"

text \<open>The dict \<^verbatim>\<open>execution_results\<close>.\<close>

record ExecutionResults =
  successful_actions :: nat
  failed_actions :: nat
  action_details :: "pyval list"

text \<open>
  The body of the loop of \<^verbatim>\<open>execute_workflow_actions\<close>: the call of
  \<^verbatim>\<open>_execute_single_action\<close> sits in \<^verbatim>\<open>try ... except Exception\<close>.  \<open>estr\<close> is
  \<^verbatim>\<open>str\<close> on an exception, \<open>now\<close> the clock reading in ISO format (one reading
  for the whole call).
\<close>

definition execute_action ::
  "EmailTools \<Rightarrow> (pyval \<Rightarrow> string) \<Rightarrow> (exn \<Rightarrow> string) \<Rightarrow> string \<Rightarrow> ExecutionResults \<Rightarrow> pyval
     \<Rightarrow> ExecutionResults" where
  "execute_action tools fmt estr now res action =
     (case execute_single_action tools fmt action of
        Inr ok \<Rightarrow>
          if ok then
            res\<lparr> successful_actions := successful_actions res + 1,
                 action_details := action_details res @
                   [PDict [(''action'', action), (''result'', PStr ''success''),
                           (''timestamp'', PStr now)]] \<rparr>
          else
            res\<lparr> failed_actions := failed_actions res + 1,
                 action_details := action_details res @
                   [PDict [(''action'', action), (''result'', PStr ''failed''),
                           (''timestamp'', PStr now)]] \<rparr>
      | Inl e \<Rightarrow>
          res\<lparr> failed_actions := failed_actions res + 1,
               action_details := action_details res @
                 [PDict [(''action'', action), (''result'', PStr (''error: '' @ estr e)),
                         (''timestamp'', PStr now)]] \<rparr>)"

definition execute_workflow_actions ::
  "EmailTools \<Rightarrow> (pyval \<Rightarrow> string) \<Rightarrow> (exn \<Rightarrow> string) \<Rightarrow> string \<Rightarrow> ExecutionPlan
     \<Rightarrow> ExecutionResults" where
  "execute_workflow_actions tools fmt estr now plan =
     foldl (execute_action tools fmt estr now)
       \<lparr> successful_actions = 0, failed_actions = 0, action_details = [] \<rparr>
       (immediate_actions plan)"

subsection \<open>The cycle: perceive, think, act\<close>

text \<open>
  \<^verbatim>\<open>ToolResult\<close> (its metadata left out), and \<^verbatim>\<open>use_tool\<close> applied to the
  outcome of the tool's function: an exception becomes a failed result.  The four tools
  the steps name are registered, so the branch for an unknown tool is never taken.
\<close>

record 'r ToolResult =
  success :: bool
  result :: "'r option"
  error :: "exn option"

definition use_tool :: "exn + 'r \<Rightarrow> 'r ToolResult" where
  "use_tool outcome =
     (case outcome of
        Inr r \<Rightarrow> \<lparr> success = True, result = Some r, error = None \<rparr>
      | Inl e \<Rightarrow> \<lparr> success = False, result = None, error = Some e \<rparr>)"

text \<open>
  The dict \<^verbatim>\<open>workflow_result\<close> of \<^verbatim>\<open>act\<close>: three keys set at the start, one
  per step that succeeded, and the end time.
\<close>

record WorkflowResult =
  workflow_type :: string
  emails_processed :: nat
  wf_start_time :: string
  analysis_results :: "AnalysisResults option"
  execution_plan :: "ExecutionPlan option"
  execution_results :: "ExecutionResults option"
  performance_report :: "pyval option"
  wf_end_time :: "string option"

text \<open>The dict as JSON data, the form in which the event store keeps it.\<close>

definition analysis_dict :: "AnalysisResults \<Rightarrow> pyval" where
  "analysis_dict a =
     PDict [(''total_emails'', PInt (int (total_emails a))),
            (''classification_results'', classification_results a),
            (''organization_suggestions'', organization_suggestions a),
            (''response_candidates'', response_candidates a)]"

definition plan_dict :: "ExecutionPlan \<Rightarrow> pyval" where
  "plan_dict p =
     PDict [(''immediate_actions'', PList (immediate_actions p)),
            (''user_approval_needed'', PList (user_approval_needed p)),
            (''scheduled_actions'', PList (scheduled_actions p)),
            (''completed_actions'', PList (completed_actions p))]"

definition results_dict :: "ExecutionResults \<Rightarrow> pyval" where
  "results_dict r =
     PDict [(''successful_actions'', PInt (int (successful_actions r))),
            (''failed_actions'', PInt (int (failed_actions r))),
            (''action_details'', PList (action_details r))]"

definition workflow_result_dict :: "WorkflowResult \<Rightarrow> pydict" where
  "workflow_result_dict w =
     [(''workflow_type'', PStr (workflow_type w)),
      (''emails_processed'', PInt (int (emails_processed w))),
      (''start_time'', PStr (wf_start_time w))]
     @ (case analysis_results w of None \<Rightarrow> [] | Some a \<Rightarrow> [(''analysis_results'', analysis_dict a)])
     @ (case execution_plan w of None \<Rightarrow> [] | Some p \<Rightarrow> [(''execution_plan'', plan_dict p)])
     @ (case execution_results w of None \<Rightarrow> [] | Some r \<Rightarrow> [(''execution_results'', results_dict r)])
     @ (case performance_report w of None \<Rightarrow> [] | Some r \<Rightarrow> [(''performance_report'', r)])
     @ (case wf_end_time w of None \<Rightarrow> [] | Some t \<Rightarrow> [(''end_time'', PStr t)])"

text \<open>
  \<^verbatim>\<open>EmailMessage\<close> of src/tools/email\_tools.py (fields prefixed \<open>msg_\<close>; the date
  is held as its ISO text) and its \<^verbatim>\<open>to_dict\<close>.
\<close>

record EmailMessage =
  msg_id :: string
  msg_subject :: string
  msg_sender :: string
  msg_recipients :: "string list"
  msg_body :: string
  msg_html_body :: "string option"
  msg_date :: string
  msg_labels :: "string list"
  msg_is_read :: bool
  msg_is_important :: bool
  msg_attachments :: "string list"

definition to_dict :: "EmailMessage \<Rightarrow> pydict" where
  "to_dict m =
     [(''id'', PStr (msg_id m)),
      (''subject'', PStr (msg_subject m)),
      (''sender'', PStr (msg_sender m)),
      (''recipients'', PList (map PStr (msg_recipients m))),
      (''body'', PStr (msg_body m)),
      (''html_body'', (case msg_html_body m of None \<Rightarrow> PNone | Some h \<Rightarrow> PStr h)),
      (''date'', PStr (msg_date m)),
      (''labels'', PList (map PStr (msg_labels m))),
      (''is_read'', PBool (msg_is_read m)),
      (''is_important'', PBool (msg_is_important m)),
      (''attachments'', PList (map PStr (msg_attachments m)))]"

text \<open>
  The \<^verbatim>\<open>EmailMessage(...)\<close> that \<^verbatim>\<open>think\<close> rebuilds from a dict of the
  perception, as the dict of its fields.  Six keys are read with \<^verbatim>\<open>[...]\<close>
  (KeyError when missing), five with \<^verbatim>\<open>.get\<close>; the dataclass checks no types.
  \<^verbatim>\<open>datetime.fromisoformat\<close> raises TypeError on a date that is not a str; a
  str is taken to parse, the dates of a perception being written by
  \<^verbatim>\<open>isoformat\<close>.
\<close>

definition email_from_dict :: "pydict \<Rightarrow> exn + pydict" where
  "email_from_dict email_data =
     ebind (py_getitem (PDict email_data) ''id'') (\<lambda>eid.
     ebind (py_getitem (PDict email_data) ''subject'') (\<lambda>subject.
     ebind (py_getitem (PDict email_data) ''sender'') (\<lambda>sender.
     ebind (py_getitem (PDict email_data) ''recipients'') (\<lambda>recipients.
     ebind (py_getitem (PDict email_data) ''body'') (\<lambda>body.
     ebind (py_getitem (PDict email_data) ''date'') (\<lambda>date.
     ebind (case date of PStr text \<Rightarrow> Inr (PStr text) | _ \<Rightarrow> Inl TypeError) (\<lambda>parsed.
       Inr [(''id'', eid),
            (''subject'', subject),
            (''sender'', sender),
            (''recipients'', recipients),
            (''body'', body),
            (''html_body'', dict_get email_data ''html_body'' PNone),
            (''date'', parsed),
            (''labels'', dict_get email_data ''labels'' (PList [])),
            (''is_read'', dict_get email_data ''is_read'' (PBool False)),
            (''is_important'', dict_get email_data ''is_important'' (PBool False)),
            (''attachments'', dict_get email_data ''attachments'' (PList []))])))))))"

text \<open>A loop that appends one result per element and ends at the first exception.\<close>

fun emap :: "('a \<Rightarrow> exn + 'b) \<Rightarrow> 'a list \<Rightarrow> exn + 'b list" where
  "emap f [] = Inr []"
| "emap f (x # xs) = ebind (f x) (\<lambda>y. ebind (emap f xs) (\<lambda>ys. Inr (y # ys)))"

text \<open>
  What the world outside the orchestrator supplies during one cycle: the batch
  \<^verbatim>\<open>fetch_recent_emails\<close> returns, the outcome of each analysis branch
  and the order in which the three futures complete, the outcome of
  \<^verbatim>\<open>monitor_agent_performance\<close> (a report that reads the agents' status and the
  memory, and changes neither), and the clock readings.
\<close>

record CycleEnv =
  fetched_emails :: "EmailMessage list"
  branch_outcome :: "branch \<Rightarrow> exn + pydict"
  completion_order :: "branch list"
  monitor_outcome :: "exn + pyval"
  clock_start :: string
  clock_action :: string
  clock_end :: string
  event_stamp :: string
  event_now :: datetime

text \<open>The local variables of \<^verbatim>\<open>act\<close> that the loop over the steps updates.\<close>

record StepState =
  pipeline_results :: "AnalysisResults option"
  planned :: "ExecutionPlan option"
  workflow_result :: WorkflowResult

text \<open>
  One step of the workflow, the \<^verbatim>\<open>if ... elif\<close> chain of \<^verbatim>\<open>act\<close>.  A step is
  skipped when the result it needs is missing (\<^verbatim>\<open>and pipeline_results\<close>,
  \<^verbatim>\<open>and execution_plan\<close>: both dicts have four keys, so they are truthy whenever
  they are set), and it records its result only when its tool succeeded.
\<close>

definition workflow_step ::
  "EmailTools \<Rightarrow> (pyval \<Rightarrow> string) \<Rightarrow> (exn \<Rightarrow> string) \<Rightarrow> WorkflowSettings \<Rightarrow> CycleEnv
     \<Rightarrow> pydict list \<Rightarrow> StepState \<Rightarrow> string \<Rightarrow> StepState" where
  "workflow_step tools fmt estr settings env emails st step =
     (if step = ''run_analysis_pipeline'' then
        (let tool_result = use_tool (run_email_analysis_pipeline settings (branch_outcome env)
                                       (completion_order env) emails)
         in if success tool_result then
              st\<lparr> pipeline_results := result tool_result,
                  workflow_result := (workflow_result st)\<lparr> analysis_results := result tool_result \<rparr> \<rparr>
            else st)
      else if step = ''coordinate_workflow'' \<and> pipeline_results st \<noteq> None then
        (let tool_result = use_tool (coordinate_workflow_execution settings
                                       (the (pipeline_results st)))
         in if success tool_result then
              st\<lparr> planned := result tool_result,
                  workflow_result := (workflow_result st)\<lparr> execution_plan := result tool_result \<rparr> \<rparr>
            else st)
      else if step = ''execute_actions'' \<and> planned st \<noteq> None then
        (let tool_result = use_tool (Inr (execute_workflow_actions tools fmt estr
                                            (clock_action env) (the (planned st))))
         in if success tool_result then
              st\<lparr> workflow_result := (workflow_result st)\<lparr> execution_results := result tool_result \<rparr> \<rparr>
            else st)
      else if step = ''monitor_performance'' then
        (let tool_result = use_tool (monitor_outcome env)
         in if success tool_result then
              st\<lparr> workflow_result := (workflow_result st)\<lparr> performance_report := result tool_result \<rparr> \<rparr>
            else st)
      else st)"

text \<open>An action planned by \<^verbatim>\<open>think\<close>.\<close>

record PlannedAction =
  action_type :: string
  action_emails :: "pydict list"
  action_steps :: "string list"

text \<open>
  \<^verbatim>\<open>act\<close>: for each planned action the steps run in order, the workflow result is
  stored as a \<^verbatim>\<open>workflow_execution\<close> event (importance 0.8, tags
  \<^verbatim>\<open>workflow\<close> and \<^verbatim>\<open>email_processing\<close>) and a successful
  \<^verbatim>\<open>ToolResult\<close> holding it joins the results.  Nothing in \<^verbatim>\<open>act\<close> catches an
  exception of \<^verbatim>\<open>add_event\<close>.  \<open>mem\<close> is the global memory.
\<close>

fun act_loop ::
  "EmailTools \<Rightarrow> (pyval \<Rightarrow> string) \<Rightarrow> (exn \<Rightarrow> string) \<Rightarrow> WorkflowSettings \<Rightarrow> CycleEnv
     \<Rightarrow> PersistentMemory \<Rightarrow> WorkflowResult ToolResult list \<Rightarrow> PlannedAction list
     \<Rightarrow> (exn + WorkflowResult ToolResult list) \<times> PersistentMemory" where
  "act_loop tools fmt estr settings env mem results [] = (Inr results, mem)"
| "act_loop tools fmt estr settings env mem results (action # actions) =
     (if action_type action = ''comprehensive_email_processing'' then
        (let emails = action_emails action;
             workflow_result0 =
               \<lparr> workflow_type = ''comprehensive_email_processing'',
                 emails_processed = length emails,
                 wf_start_time = clock_start env,
                 analysis_results = None, execution_plan = None, execution_results = None,
                 performance_report = None, wf_end_time = None \<rparr>;
             st = foldl (workflow_step tools fmt estr settings env emails)
                    \<lparr> pipeline_results = None, planned = None,
                      workflow_result = workflow_result0 \<rparr>
                    (action_steps action);
             final = (workflow_result st)\<lparr> wf_end_time := Some (clock_end env) \<rparr>
         in case add_event mem (event_stamp env) (event_now env) ''workflow_execution''
                   (workflow_result_dict final) (8/10) (Some [''workflow'', ''email_processing'']) of
              (Inl e, mem') \<Rightarrow> (Inl e, mem')
            | (Inr event_id, mem') \<Rightarrow>
                act_loop tools fmt estr settings env mem'
                  (results @ [\<lparr> success = True, result = Some final, error = None \<rparr>]) actions)
      else act_loop tools fmt estr settings env mem results actions)"

definition act ::
  "EmailTools \<Rightarrow> (pyval \<Rightarrow> string) \<Rightarrow> (exn \<Rightarrow> string) \<Rightarrow> WorkflowSettings \<Rightarrow> CycleEnv
     \<Rightarrow> PersistentMemory \<Rightarrow> PlannedAction list
     \<Rightarrow> (exn + WorkflowResult ToolResult list) \<times> PersistentMemory" where
  "act tools fmt estr settings env mem actions = act_loop tools fmt estr settings env mem [] actions"

text \<open>
  \<^verbatim>\<open>perceive\<close> (the two entries of the perception that \<^verbatim>\<open>think\<close> reads) and
  \<^verbatim>\<open>think\<close>: no action for an empty batch; otherwise the emails are rebuilt
  from their dicts and one action with the four steps is planned.
\<close>

record Perception =
  new_emails :: "pydict list"
  total_new_emails :: nat

definition perceive :: "CycleEnv \<Rightarrow> Perception" where
  "perceive env =
     \<lparr> new_emails = map to_dict (fetched_emails env),
       total_new_emails = length (fetched_emails env) \<rparr>"

definition think :: "Perception \<Rightarrow> exn + PlannedAction list" where
  "think perception =
     (if total_new_emails perception = 0 then Inr []
      else ebind (emap email_from_dict (new_emails perception)) (\<lambda>emails.
             Inr [\<lparr> action_type = ''comprehensive_email_processing'',
                    action_emails = emails,
                    action_steps = [''run_analysis_pipeline'', ''coordinate_workflow'',
                                    ''execute_actions'', ''monitor_performance''] \<rparr>]))"

text \<open>
  \<^verbatim>\<open>run_cycle\<close> of the base agent: the result of a cycle that ran through, with
  \<^verbatim>\<open>success = all(r.success for r in results)\<close>, or the result of a cycle an
  exception left, whose success is False.
\<close>

datatype CycleResult =
    CycleCompleted "PlannedAction list" "WorkflowResult ToolResult list" bool
  | CycleFailed exn

definition cycle_success :: "CycleResult \<Rightarrow> bool" where
  "cycle_success r = (case r of CycleCompleted actions results ok \<Rightarrow> ok | CycleFailed e \<Rightarrow> False)"

definition run_cycle ::
  "EmailTools \<Rightarrow> (pyval \<Rightarrow> string) \<Rightarrow> (exn \<Rightarrow> string) \<Rightarrow> WorkflowSettings \<Rightarrow> CycleEnv
     \<Rightarrow> PersistentMemory \<Rightarrow> CycleResult \<times> PersistentMemory" where
  "run_cycle tools fmt estr settings env mem =
     (let perception = perceive env
      in case think perception of
           Inl e \<Rightarrow> (CycleFailed e, mem)
         | Inr planned_actions \<Rightarrow>
             (case act tools fmt estr settings env mem planned_actions of
                (Inr results, mem') \<Rightarrow>
                  (CycleCompleted planned_actions results (list_all success results), mem')
              | (Inl e, mem') \<Rightarrow> (CycleFailed e, mem')))"

section \<open>Vocabulary of the orchestrator's properties\<close>

text \<open>
  The definitions of this section are not code of the repository: they name what the
  properties below speak about.  An analysis item is well formed when the planner can
  read it: a dict with the keys its action needs, and a number as confidence.
\<close>

definition item_of :: "pyval \<Rightarrow> string \<Rightarrow> pyval" where
  "item_of x k = (case x of PDict d \<Rightarrow> dict_get d k PNone | _ \<Rightarrow> PNone)"

definition is_number :: "pyval \<Rightarrow> bool" where
  "is_number v = (case py_num v of Inr r \<Rightarrow> True | Inl e \<Rightarrow> False)"

definition confidence_of :: "pyval \<Rightarrow> rat" where
  "confidence_of x = (case py_num (item_of x ''confidence'') of Inr r \<Rightarrow> r | Inl e \<Rightarrow> 0)"

definition classification_ok :: "pyval \<Rightarrow> bool" where
  "classification_ok x =
     (case x of
        PDict d \<Rightarrow>
          map_of d ''email_id'' \<noteq> None \<and> map_of d ''category'' \<noteq> None
          \<and> (case map_of d ''confidence'' of Some v \<Rightarrow> is_number v | None \<Rightarrow> False)
      | _ \<Rightarrow> False)"

definition suggestion_ok :: "pyval \<Rightarrow> bool" where
  "suggestion_ok x =
     (case x of
        PDict d \<Rightarrow> map_of d ''action'' \<noteq> None \<and> map_of d ''target'' \<noteq> None
      | _ \<Rightarrow> False)"

definition response_ok :: "pyval \<Rightarrow> bool" where
  "response_ok x =
     (case x of
        PDict d \<Rightarrow>
          map_of d ''email_id'' \<noteq> None \<and> map_of d ''response_text'' \<noteq> None
          \<and> (case map_of d ''confidence'' of Some v \<Rightarrow> is_number v | None \<Rightarrow> False)
      | _ \<Rightarrow> False)"

text \<open>The action dict the planner builds from a well-formed item.\<close>

definition apply_classification_action :: "pyval \<Rightarrow> pyval" where
  "apply_classification_action x =
     PDict [(''type'', PStr ''apply_classification''),
            (''email_id'', item_of x ''email_id''),
            (''category'', item_of x ''category''),
            (''confidence'', item_of x ''confidence'')]"

definition review_classification_action :: "pyval \<Rightarrow> pyval" where
  "review_classification_action x =
     PDict [(''type'', PStr ''review_classification''),
            (''email_id'', item_of x ''email_id''),
            (''suggested_category'', item_of x ''category''),
            (''confidence'', item_of x ''confidence'')]"

definition apply_organization_action :: "pyval \<Rightarrow> pyval" where
  "apply_organization_action x =
     PDict [(''type'', PStr ''apply_organization''),
            (''action'', item_of x ''action''),
            (''target'', item_of x ''target''),
            (''confidence'',
               (case x of PDict d \<Rightarrow> dict_get d ''confidence'' (PFloat (1/2)) | _ \<Rightarrow> PNone))]"

definition send_response_action :: "pyval \<Rightarrow> pyval" where
  "send_response_action x =
     PDict [(''type'', PStr ''send_response''),
            (''email_id'', item_of x ''email_id''),
            (''response_text'', item_of x ''response_text'')]"

definition review_response_action :: "pyval \<Rightarrow> pyval" where
  "review_response_action x =
     PDict [(''type'', PStr ''review_response''),
            (''email_id'', item_of x ''email_id''),
            (''response_text'', item_of x ''response_text''),
            (''confidence'', item_of x ''confidence'')]"

text \<open>The entry of \<^verbatim>\<open>action_details\<close> for an action, from the outcome of executing it.\<close>

definition action_detail ::
  "EmailTools \<Rightarrow> (pyval \<Rightarrow> string) \<Rightarrow> (exn \<Rightarrow> string) \<Rightarrow> string \<Rightarrow> pyval \<Rightarrow> pyval" where
  "action_detail tools fmt estr now action =
     PDict [(''action'', action),
            (''result'',
               PStr (case execute_single_action tools fmt action of
                       Inr ok \<Rightarrow> (if ok then ''success'' else ''failed'')
                     | Inl e \<Rightarrow> ''error: '' @ estr e)),
            (''timestamp'', PStr now)]"

text \<open>
  The action \<^verbatim>\<open>think\<close> plans for a non-empty batch, and the workflow result of
  the cycle in closed form: each entry is present when the step that sets it ran and its
  tool succeeded.
\<close>

definition cycle_action :: "CycleEnv \<Rightarrow> PlannedAction" where
  "cycle_action env =
     \<lparr> action_type = ''comprehensive_email_processing'',
       action_emails = new_emails (perceive env),
       action_steps = [''run_analysis_pipeline'', ''coordinate_workflow'',
                       ''execute_actions'', ''monitor_performance''] \<rparr>"

definition cycle_plan ::
  "WorkflowSettings \<Rightarrow> CycleEnv \<Rightarrow> ExecutionPlan option" where
  "cycle_plan settings env =
     (case run_email_analysis_pipeline settings (branch_outcome env) (completion_order env)
             (new_emails (perceive env)) of
        Inl e \<Rightarrow> None
      | Inr a \<Rightarrow>
          (case coordinate_workflow_execution settings a of Inl e \<Rightarrow> None | Inr p \<Rightarrow> Some p))"

definition cycle_workflow_result ::
  "EmailTools \<Rightarrow> (pyval \<Rightarrow> string) \<Rightarrow> (exn \<Rightarrow> string) \<Rightarrow> WorkflowSettings \<Rightarrow> CycleEnv
     \<Rightarrow> WorkflowResult" where
  "cycle_workflow_result tools fmt estr settings env =
     \<lparr> workflow_type = ''comprehensive_email_processing'',
       emails_processed = length (fetched_emails env),
       wf_start_time = clock_start env,
       analysis_results =
         (case run_email_analysis_pipeline settings (branch_outcome env) (completion_order env)
                 (new_emails (perceive env)) of
            Inl e \<Rightarrow> None | Inr a \<Rightarrow> Some a),
       execution_plan = cycle_plan settings env,
       execution_results =
         map_option (execute_workflow_actions tools fmt estr (clock_action env))
           (cycle_plan settings env),
       performance_report = (case monitor_outcome env of Inl e \<Rightarrow> None | Inr r \<Rightarrow> Some r),
       wf_end_time = Some (clock_end env) \<rparr>"

section \<open>Properties of the persistent memory\<close>

lemma ebind_Inr: "ebind (Inr x) f = f x"
  by (simp add: ebind_def)

lemma ebind_Inl: "ebind (Inl e) f = Inl e"
  by (simp add: ebind_def)

lemma get_event_db_user_feedback_update:
  "get_event (s\<lparr> db_user_feedback := f \<rparr>) event_id = get_event s event_id"
  by (simp add: get_event_def split: option.splits)

lemma user_preferences_update_preference_other:
  "category @ ''.'' @ pkey \<noteq> k \<Longrightarrow>
   user_preferences (update_preference s now category pkey v e b) k = user_preferences s k"
  by (simp add: update_preference_def Let_def)

lemma get_event_update_preference:
  "get_event (update_preference s now category pkey v e b) event_id = get_event s event_id"
  by (simp add: update_preference_def get_event_def Let_def split: option.splits)

lemma db_user_feedback_update_preference:
  "db_user_feedback (update_preference s now category pkey v e b) = db_user_feedback s"
  by (simp add: update_preference_def Let_def)

lemma foldl_keywords_frame:
  "get_event (foldl (\<lambda>st kw. update_preference st now cat (f kw) v e b) s ks) event_id = get_event s event_id
   \<and> db_user_feedback (foldl (\<lambda>st kw. update_preference st now cat (f kw) v e b) s ks) = db_user_feedback s"
  by (induction ks arbitrary: s)
     (simp_all add: get_event_update_preference db_user_feedback_update_preference)

lemma foldl_keywords_sender_key:
  "user_preferences
     (foldl (\<lambda>st kw. update_preference st now ''classification''
                       (''keyword_category_'' @ g kw) v e b) s ks)
     (''classification.sender_category_'' @ x)
   = user_preferences s (''classification.sender_category_'' @ x)"
  by (induction ks arbitrary: s) (simp_all add: user_preferences_update_preference_other)

lemma confidence_update_preference:
  "map_option pref_confidence
     (user_preferences (update_preference s now category pkey v e b) (category @ ''.'' @ pkey))
   = Some (case user_preferences s (category @ ''.'' @ pkey) of
             None \<Rightarrow> max 0 (1/2 + b)
           | Some p \<Rightarrow> min 1 (pref_confidence p + b))"
  by (simp add: update_preference_def Let_def split: option.splits)

lemma learn_classification_correction:
  assumes "get_event s event_id = Some event"
      and "truthy (dict_get (ev_data event) ''classification_result'' PNone)"
      and "truthy (dict_get correction ''correct_category'' PNone)"
      and "dict_get (ev_data event) ''email_sender'' (PStr []) = PStr sender"
      and "sender \<noteq> []"
      and "py_iter (dict_get (ev_data event) ''email_keywords'' (PList [])) = Inr ks"
  shows "learn_from_feedback fmt s now event_id ''classification_correction'' (PDict correction)
         = (None,
            foldl (\<lambda>st kw. update_preference st now ''classification''
                     (''keyword_category_'' @ py_format fmt kw)
                     (dict_get correction ''correct_category'' PNone) (ev_id event) (2/10))
              (update_preference s now ''classification'' (''sender_category_'' @ sender)
                 (dict_get correction ''correct_category'' PNone) (ev_id event) (3/10)) ks)"
  using assms
  by (simp add: learn_from_feedback_def update_classification_preference_def py_get_def
        py_format_def Let_def)

section \<open>Properties of the performance monitor\<close>

lemma deque_append_length: "length xs \<le> n \<Longrightarrow> length (deque_append n xs x) \<le> n"
  by (auto simp add: deque_append_def Let_def)

lemma deque_append_drop:
  assumes "length xs \<le> n"
  shows "deque_append n xs x = drop (length (xs @ [x]) - n) (xs @ [x])"
proof (cases "length xs = n")
  case True
  then show ?thesis by (cases xs) (auto simp add: deque_append_def Let_def drop_Suc)
next
  case False
  with assms have "length xs < n" by simp
  then show ?thesis by (simp add: deque_append_def Let_def)
qed

lemma drop_excess_twice:
  "drop (length (drop (length as - n) as @ ys) - n) (drop (length as - n) as @ ys)
     = drop (length (as @ ys) - n) (as @ ys)"
proof (cases "length as \<le> n")
  case True
  then show ?thesis by simp
next
  case False
  then have "n < length as" by simp
  then show ?thesis by (simp add: add.commute)
qed

lemma last_deque_append: "0 < n \<Longrightarrow> last (deque_append n xs x) = x"
  by (cases xs) (auto simp add: deque_append_def Let_def)

lemma track_buffer:
  "metrics_buffer (track m c) = deque_append (buffer_size m) (metrics_buffer m) (metric_of c)
   \<and> buffer_size (track m c) = buffer_size m"
  by (simp add: track_def end_operation_def start_operation_def check_performance_thresholds_def
        metric_of_def Let_def)

lemma foldl_track_buffer:
  "length (metrics_buffer m) \<le> buffer_size m \<Longrightarrow>
   metrics_buffer (foldl track m cs)
     = drop (length (metrics_buffer m @ map metric_of cs) - buffer_size m)
         (metrics_buffer m @ map metric_of cs)"
proof (induction cs arbitrary: m)
  case Nil
  then show ?case by simp
next
  case (Cons c cs)
  have len: "length (metrics_buffer (track m c)) \<le> buffer_size (track m c)"
    using Cons.prems by (simp add: track_buffer deque_append_length)
  have buf: "metrics_buffer (track m c)
               = drop (length (metrics_buffer m @ [metric_of c]) - buffer_size m)
                   (metrics_buffer m @ [metric_of c])"
    using Cons.prems by (simp only: track_buffer deque_append_drop)
  have "metrics_buffer (foldl track m (c # cs))
          = drop (length (metrics_buffer (track m c) @ map metric_of cs) - buffer_size m)
              (metrics_buffer (track m c) @ map metric_of cs)"
    using Cons.IH[OF len] by (simp add: track_buffer)
  also have "\<dots> = drop (length ((metrics_buffer m @ [metric_of c]) @ map metric_of cs) - buffer_size m)
                     ((metrics_buffer m @ [metric_of c]) @ map metric_of cs)"
    unfolding buf by (rule drop_excess_twice)
  finally show ?case by simp
qed

lemma apply_call_buffer:
  "length (metrics_buffer m) \<le> buffer_size m \<Longrightarrow>
   length (metrics_buffer (apply_call m c)) \<le> buffer_size (apply_call m c)"
  by (cases c)
     (auto simp add: start_operation_def end_operation_def check_performance_thresholds_def
        record_tool_usage_def record_memory_usage_def Let_def deque_append_length
        split: option.splits)

lemma apply_call_buffer_size: "buffer_size (apply_call m c) = buffer_size m"
  by (cases c)
     (auto simp add: start_operation_def end_operation_def check_performance_thresholds_def
        record_tool_usage_def record_memory_usage_def Let_def split: option.splits)

lemma foldl_apply_call_buffer:
  "length (metrics_buffer m) \<le> buffer_size m \<Longrightarrow>
   length (metrics_buffer (foldl apply_call m cs)) \<le> buffer_size m"
proof (induction cs arbitrary: m)
  case Nil
  then show ?case by simp
next
  case (Cons c cs)
  from Cons.prems have "length (metrics_buffer (apply_call m c)) \<le> buffer_size (apply_call m c)"
    by (rule apply_call_buffer)
  from Cons.IH[OF this] show ?case by (simp add: apply_call_buffer_size)
qed

section \<open>Properties of the orchestrator\<close>

subsection \<open>Planning\<close>

lemma plan_classification_ok:
  assumes "classification_ok c"
  shows "plan_classification p c =
           Inr (if confidence_of c > 7/10
                then p\<lparr> immediate_actions := immediate_actions p @ [apply_classification_action c] \<rparr>
                else p\<lparr> user_approval_needed :=
                          user_approval_needed p @ [review_classification_action c] \<rparr>)"
  using assms
  by (auto simp add: classification_ok_def plan_classification_def py_get_def py_getitem_def
        py_gt_def dict_get_def ebind_def item_of_def confidence_of_def is_number_def
        apply_classification_action_def review_classification_action_def
        split: pyval.splits option.splits sum.splits)

lemma plan_organization_ok:
  assumes "suggestion_ok x"
  shows "plan_organization p x =
           Inr (p\<lparr> immediate_actions := immediate_actions p @ [apply_organization_action x] \<rparr>)"
  using assms
  by (auto simp add: suggestion_ok_def plan_organization_def py_get_def py_getitem_def
        dict_get_def ebind_def item_of_def apply_organization_action_def
        split: pyval.splits option.splits sum.splits)

lemma plan_response_ok:
  assumes "response_ok r"
  shows "plan_response settings p r =
           Inr (if auto_send_responses settings \<and> confidence_of r > 8/10
                then p\<lparr> immediate_actions := immediate_actions p @ [send_response_action r] \<rparr>
                else p\<lparr> user_approval_needed :=
                          user_approval_needed p @ [review_response_action r] \<rparr>)"
  using assms
  by (auto simp add: response_ok_def plan_response_def py_get_def py_getitem_def
        py_gt_def dict_get_def ebind_def item_of_def confidence_of_def is_number_def
        send_response_action_def review_response_action_def
        split: pyval.splits option.splits sum.splits)

lemma efold_plan_classification:
  assumes "\<forall>c \<in> set cs. classification_ok c"
  shows "efold plan_classification p cs =
           Inr (p\<lparr> immediate_actions := immediate_actions p @
                     map apply_classification_action (filter (\<lambda>c. confidence_of c > 7/10) cs),
                   user_approval_needed := user_approval_needed p @
                     map review_classification_action
                       (filter (\<lambda>c. \<not> confidence_of c > 7/10) cs) \<rparr>)"
  using assms
  by (induction cs arbitrary: p) (simp_all add: plan_classification_ok ebind_def)

lemma efold_plan_organization:
  assumes "\<forall>x \<in> set xs. suggestion_ok x"
  shows "efold plan_organization p xs =
           Inr (p\<lparr> immediate_actions := immediate_actions p @ map apply_organization_action xs \<rparr>)"
  using assms
  by (induction xs arbitrary: p) (simp_all add: plan_organization_ok ebind_def)

lemma efold_plan_response:
  assumes "\<forall>r \<in> set rs. response_ok r"
  shows "efold (plan_response settings) p rs =
           Inr (p\<lparr> immediate_actions := immediate_actions p @
                     map send_response_action
                       (filter (\<lambda>r. auto_send_responses settings \<and> confidence_of r > 8/10) rs),
                   user_approval_needed := user_approval_needed p @
                     map review_response_action
                       (filter (\<lambda>r. \<not> (auto_send_responses settings \<and> confidence_of r > 8/10)) rs) \<rparr>)"
  using assms
  by (induction rs arbitrary: p) (simp_all add: plan_response_ok ebind_def)

subsection \<open>Execution\<close>

lemma execute_action_step:
  "execute_action tools fmt estr now res a =
     \<lparr> successful_actions = successful_actions res
         + (if execute_single_action tools fmt a = Inr True then 1 else 0),
       failed_actions = failed_actions res
         + (if execute_single_action tools fmt a = Inr True then 0 else 1),
       action_details = action_details res @ [action_detail tools fmt estr now a] \<rparr>"
  by (cases "execute_single_action tools fmt a")
     (simp_all add: execute_action_def action_detail_def)

lemma foldl_execute_action:
  "foldl (execute_action tools fmt estr now) res as =
     \<lparr> successful_actions = successful_actions res
         + length (filter (\<lambda>a. execute_single_action tools fmt a = Inr True) as),
       failed_actions = failed_actions res
         + length (filter (\<lambda>a. execute_single_action tools fmt a \<noteq> Inr True) as),
       action_details = action_details res @ map (action_detail tools fmt estr now) as \<rparr>"
proof (induction as arbitrary: res)
  case Nil
  then show ?case by simp
next
  case (Cons a as)
  show ?case
    unfolding foldl_Cons Cons.IH by (simp add: execute_action_step)
qed

subsection \<open>The cycle\<close>

lemma foldl_collect_result_all_raised:
  assumes "\<forall>b. isl (outcome b)"
  shows "foldl collect_result results (map outcome bs) = results"
proof (induction bs)
  case Nil
  then show ?case by simp
next
  case (Cons b bs)
  from assms obtain e where "outcome b = Inl e"
    by (cases "outcome b") (auto dest: spec[of _ b])
  with Cons.IH show ?case by (simp add: collect_result_def)
qed

lemma add_event_fresh:
  assumes "db_memory_events s (event_type @ ''_'' @ stamp) = None"
  shows "fst (add_event s stamp now event_type data importance tags)
           = Inr (event_type @ ''_'' @ stamp)
       \<and> db_memory_events (snd (add_event s stamp now event_type data importance tags))
           = (db_memory_events s)(event_type @ ''_'' @ stamp \<mapsto>
               \<lparr> ev_id = event_type @ ''_'' @ stamp, ev_timestamp = now, ev_type = event_type,
                 ev_data = data, ev_importance = importance,
                 ev_tags = (case tags of None \<Rightarrow> [] | Some ts \<Rightarrow> ts) \<rparr>)
       \<and> user_preferences (snd (add_event s stamp now event_type data importance tags))
           = user_preferences s"
  using assms by (simp add: add_event_def Let_def)

lemma email_from_dict_to_dict: "email_from_dict (to_dict m) = Inr (to_dict m)"
  by (simp add: email_from_dict_def to_dict_def py_getitem_def dict_get_def ebind_def)

lemma emap_email_from_dict: "emap email_from_dict (map to_dict ms) = Inr (map to_dict ms)"
  by (induction ms) (simp_all add: email_from_dict_to_dict ebind_def)

lemma think_perceive:
  "think (perceive env) = Inr (if fetched_emails env = [] then [] else [cycle_action env])"
  by (simp add: think_def perceive_def cycle_action_def emap_email_from_dict ebind_def)

lemma workflow_steps_closed_form:
  "workflow_result
     (foldl (workflow_step tools fmt estr settings env (new_emails (perceive env)))
        \<lparr> pipeline_results = None, planned = None,
          workflow_result =
            \<lparr> workflow_type = ''comprehensive_email_processing'',
              emails_processed = length (new_emails (perceive env)),
              wf_start_time = clock_start env,
              analysis_results = None, execution_plan = None, execution_results = None,
              performance_report = None, wf_end_time = None \<rparr> \<rparr>
        [''run_analysis_pipeline'', ''coordinate_workflow'', ''execute_actions'',
         ''monitor_performance''])
     \<lparr> wf_end_time := Some (clock_end env) \<rparr>
   = cycle_workflow_result tools fmt estr settings env"
  by (cases "run_email_analysis_pipeline settings (branch_outcome env) (completion_order env)
               (new_emails (perceive env))";
      cases "monitor_outcome env")
     (auto simp add: workflow_step_def use_tool_def cycle_workflow_result_def cycle_plan_def
        perceive_def split: sum.splits)

lemma run_cycle_nonempty:
  assumes "fetched_emails env \<noteq> []"
      and "db_memory_events mem (''workflow_execution_'' @ event_stamp env) = None"
  shows "run_cycle tools fmt estr settings env mem =
           (CycleCompleted [cycle_action env]
              [\<lparr> success = True,
                 result = Some (cycle_workflow_result tools fmt estr settings env),
                 error = None \<rparr>]
              True,
            snd (add_event mem (event_stamp env) (event_now env) ''workflow_execution''
                   (workflow_result_dict (cycle_workflow_result tools fmt estr settings env))
                   (8/10) (Some [''workflow'', ''email_processing''])))"
proof -
  let ?w = "cycle_workflow_result tools fmt estr settings env"
  let ?add = "add_event mem (event_stamp env) (event_now env) ''workflow_execution''
                (workflow_result_dict ?w) (8/10) (Some [''workflow'', ''email_processing''])"
  have fresh: "db_memory_events mem (''workflow_execution'' @ ''_'' @ event_stamp env) = None"
    using assms(2) by simp
  have "fst ?add = Inr (''workflow_execution'' @ ''_'' @ event_stamp env)"
    using add_event_fresh[OF fresh] by blast
  then obtain mem' where add: "?add = (Inr (''workflow_execution'' @ ''_'' @ event_stamp env), mem')"
    by (cases ?add) simp
  have think: "think (perceive env) = Inr [cycle_action env]"
    using assms(1) by (simp add: think_perceive)
  have "act tools fmt estr settings env mem [cycle_action env]
          = (Inr [\<lparr> success = True, result = Some ?w, error = None \<rparr>], mem')"
    unfolding act_def cycle_action_def using add
    by (simp add: Let_def workflow_steps_closed_form del: foldl_Cons)
  then show ?thesis
    using add by (simp add: run_cycle_def Let_def think)
qed

lemma run_cycle_empty:
  assumes "fetched_emails env = []"
  shows "run_cycle tools fmt estr settings env mem = (CycleCompleted [] [] True, mem)"
  using assms
  by (simp add: think_def perceive_def run_cycle_def act_def Let_def)

section \<open>Claims about the persistent memory\<close>

text \<open>
  C1 (the code departs from the claim).  The claim: the stored confidence lies in [0,1]
  after every update.  \<open>update_preference\<close> bounds an existing entry from above only, so
  repeated rejections push it below zero: on a fresh memory holding one event, three
  \<^verbatim>\<open>response_approval\<close> feedbacks with \<^verbatim>\<open>approved = False\<close> leave the
  confidences 0.3, 0.1 and then -0.1.
\<close>

theorem C1_confidence_below_zero:
  "(let (r0, s0) = add_event PersistentMemory_init ''t0'' 0 ''response_generated''
                     [(''intent'', PStr ''question''), (''response_style'', PStr ''formal'')]
                     (1/2) None;
        rejected = PDict [(''approved'', PBool False)];
        (e1, s1) = add_user_feedback fmt s0 ''t1'' 1 ''response_generated_t0''
                     ''response_approval'' rejected;
        (e2, s2) = add_user_feedback fmt s1 ''t2'' 2 ''response_generated_t0''
                     ''response_approval'' rejected;
        (e3, s3) = add_user_feedback fmt s2 ''t3'' 3 ''response_generated_t0''
                     ''response_approval'' rejected
    in r0 = Inr ''response_generated_t0'' \<and> e1 = None \<and> e2 = None \<and> e3 = None
       \<and> snd (get_preference s1 ''response'' ''intent_style_question'' PNone) = 3/10
       \<and> snd (get_preference s2 ''response'' ''intent_style_question'' PNone) = 1/10
       \<and> snd (get_preference s3 ''response'' ''intent_style_question'' PNone) = - (1/10)
       \<and> snd (get_preference s3 ''response'' ''intent_style_question'' PNone) < 0)"
  by (simp add: add_event_def PersistentMemory_init_def add_user_feedback_def
        learn_from_feedback_def get_event_def update_response_preference_def py_get_def
        dict_get_def update_preference_def get_preference_def py_format_def Let_def)

text \<open>
  C5.  Starting from a key absent from the preference store, two successive
  \<^verbatim>\<open>classification_correction\<close> feedbacks on an event with a sender boost the
  sender's preference by 0.3 each: its confidence is 0.8 after the first call and 1.0
  (clamped, not 1.1) after the second.  Each call clamps the sum of the stored
  confidence and the boost; nothing is recomputed from the entry's history.
\<close>

theorem C5_two_classification_boosts:
  assumes ev: "get_event s event_id = Some event"
      and orig: "truthy (dict_get (ev_data event) ''classification_result'' PNone)"
      and corr: "truthy (dict_get correction ''correct_category'' PNone)"
      and snd: "dict_get (ev_data event) ''email_sender'' (PStr []) = PStr sender" "sender \<noteq> []"
      and kws: "py_iter (dict_get (ev_data event) ''email_keywords'' (PList [])) = Inr ks"
      and fresh: "user_preferences s (''classification.sender_category_'' @ sender) = None"
      and ids: "db_user_feedback s (''feedback_'' @ stamp1) = None"
               "db_user_feedback s (''feedback_'' @ stamp2) = None" "stamp1 \<noteq> stamp2"
  shows "\<exists>s1 s2.
           add_user_feedback fmt s stamp1 now1 event_id ''classification_correction''
             (PDict correction) = (None, s1)
         \<and> add_user_feedback fmt s1 stamp2 now2 event_id ''classification_correction''
             (PDict correction) = (None, s2)
         \<and> get_preference s1 ''classification'' (''sender_category_'' @ sender) dflt
             = (dict_get correction ''correct_category'' PNone, 8/10)
         \<and> get_preference s2 ''classification'' (''sender_category_'' @ sender) dflt
             = (dict_get correction ''correct_category'' PNone, 1)"
proof -
  let ?c = "dict_get correction ''correct_category'' PNone"
  let ?kw = "\<lambda>now st kw. update_preference st now ''classification''
                     (''keyword_category_'' @ py_format fmt kw) ?c (ev_id event) (2/10)"
  let ?fb = "\<lambda>now. \<lparr> fb_event_id = event_id, fb_type = ''classification_correction'',
                     fb_value = PDict correction, fb_timestamp = now \<rparr>"
  let ?key = "''classification.sender_category_'' @ sender"
  define a where "a = s\<lparr> db_user_feedback := (db_user_feedback s)(''feedback_'' @ stamp1 \<mapsto> ?fb now1) \<rparr>"
  define s1 where "s1 = foldl (?kw now1)
      (update_preference a now1 ''classification'' (''sender_category_'' @ sender) ?c (ev_id event) (3/10)) ks"
  define b where "b = s1\<lparr> db_user_feedback := (db_user_feedback s1)(''feedback_'' @ stamp2 \<mapsto> ?fb now2) \<rparr>"
  define s2 where "s2 = foldl (?kw now2)
      (update_preference b now2 ''classification'' (''sender_category_'' @ sender) ?c (ev_id event) (3/10)) ks"
  have ev_a: "get_event a event_id = Some event"
    by (simp add: a_def get_event_db_user_feedback_update ev)
  have step1: "add_user_feedback fmt s stamp1 now1 event_id ''classification_correction''
                 (PDict correction) = (None, s1)"
    using learn_classification_correction[OF ev_a orig corr snd kws, of fmt now1] ids(1)
    by (simp add: add_user_feedback_def Let_def a_def s1_def)
  have ev_s1: "get_event s1 event_id = Some event"
    by (simp add: s1_def foldl_keywords_frame get_event_update_preference ev_a)
  have ev_b: "get_event b event_id = Some event"
    by (simp add: b_def get_event_db_user_feedback_update ev_s1)
  have fb_s1: "db_user_feedback s1 (''feedback_'' @ stamp2) = None"
    using ids by (simp add: s1_def foldl_keywords_frame db_user_feedback_update_preference a_def)
  have step2: "add_user_feedback fmt s1 stamp2 now2 event_id ''classification_correction''
                 (PDict correction) = (None, s2)"
    using learn_classification_correction[OF ev_b orig corr snd kws, of fmt now2] fb_s1
    by (simp add: add_user_feedback_def Let_def b_def s2_def)
  have key_a: "user_preferences a ?key = None"
    using fresh by (simp add: a_def)
  have "user_preferences s1 ?key
          = user_preferences (update_preference a now1 ''classification''
              (''sender_category_'' @ sender) ?c (ev_id event) (3/10)) ?key"
    unfolding s1_def by (rule foldl_keywords_sender_key)
  with key_a have p1: "\<exists>p. user_preferences s1 ?key = Some p \<and> preference_value p = ?c
                          \<and> pref_confidence p = 8/10"
    by (simp add: update_preference_def Let_def)
  then obtain p where p: "user_preferences s1 ?key = Some p" "preference_value p = ?c"
    "pref_confidence p = 8/10" by blast
  have key_b: "user_preferences b ?key = Some p"
    using p by (simp add: b_def)
  have "user_preferences s2 ?key
          = user_preferences (update_preference b now2 ''classification''
              (''sender_category_'' @ sender) ?c (ev_id event) (3/10)) ?key"
    unfolding s2_def by (rule foldl_keywords_sender_key)
  with key_b p have p2: "\<exists>q. user_preferences s2 ?key = Some q \<and> preference_value q = ?c
                          \<and> pref_confidence q = 1"
    by (simp add: update_preference_def Let_def)
  have g1: "get_preference s1 ''classification'' (''sender_category_'' @ sender) dflt = (?c, 8/10)"
    using p by (simp add: get_preference_def)
  have g2: "get_preference s2 ''classification'' (''sender_category_'' @ sender) dflt = (?c, 1)"
    using p2 by (auto simp add: get_preference_def)
  from step1 step2 g1 g2 show ?thesis by blast
qed

theorem C5_two_classification_boosts_witness:
  "\<exists>s1 s2.
     add_user_feedback (\<lambda>v. [])
       (snd (add_event PersistentMemory_init ''t0'' 0 ''email_classification''
               [(''classification_result'', PStr ''urgent''), (''email_sender'', PStr ''a@b.c''),
                (''email_keywords'', PList [PStr ''invoice''])] (1/2) None))
       ''t1'' 1 ''email_classification_t0'' ''classification_correction''
       (PDict [(''correct_category'', PStr ''meeting'')]) = (None, s1)
   \<and> add_user_feedback (\<lambda>v. []) s1 ''t2'' 2 ''email_classification_t0''
       ''classification_correction'' (PDict [(''correct_category'', PStr ''meeting'')]) = (None, s2)
   \<and> get_preference s1 ''classification'' (''sender_category_'' @ ''a@b.c'') PNone
       = (dict_get [(''correct_category'', PStr ''meeting'')] ''correct_category'' PNone, 8/10)
   \<and> get_preference s2 ''classification'' (''sender_category_'' @ ''a@b.c'') PNone
       = (dict_get [(''correct_category'', PStr ''meeting'')] ''correct_category'' PNone, 1)"
proof (rule C5_two_classification_boosts
         [where event = "\<lparr> ev_id = ''email_classification_t0'', ev_timestamp = 0,
                           ev_type = ''email_classification'',
                           ev_data = [(''classification_result'', PStr ''urgent''),
                                      (''email_sender'', PStr ''a@b.c''),
                                      (''email_keywords'', PList [PStr ''invoice''])],
                           ev_importance = 1/2, ev_tags = [] \<rparr>"
            and ks = "[PStr ''invoice'']"])
qed (simp_all add: add_event_def PersistentMemory_init_def get_event_def dict_get_def
       py_iter_def Let_def)

text \<open>
  C6.  A feedback whose event id resolves to no stored event (neither in the cache nor
  in the table) is recorded and learns nothing: the call returns without an exception,
  the feedback row is in the table, and the preferences, in memory and in the table, are
  what they were.  Nothing but the feedback table changes.
\<close>

theorem C6_unknown_event_no_preference_update:
  assumes "get_event s event_id = None"
      and "db_user_feedback s (''feedback_'' @ stamp) = None"
  shows "add_user_feedback fmt s stamp now event_id feedback_type feedback_value =
           (None, s\<lparr> db_user_feedback := (db_user_feedback s)(''feedback_'' @ stamp \<mapsto>
                  \<lparr> fb_event_id = event_id, fb_type = feedback_type,
                    fb_value = feedback_value, fb_timestamp = now \<rparr>) \<rparr>)
       \<and> user_preferences
             (snd (add_user_feedback fmt s stamp now event_id feedback_type feedback_value))
           = user_preferences s
       \<and> db_user_preferences
             (snd (add_user_feedback fmt s stamp now event_id feedback_type feedback_value))
           = db_user_preferences s"
  using assms
  by (simp add: add_user_feedback_def learn_from_feedback_def get_event_db_user_feedback_update)

theorem C6_unknown_event_no_preference_update_witness:
  "add_user_feedback (\<lambda>v. []) PersistentMemory_init ''t1'' 1 ''ghost''
       ''classification_correction'' (PDict [(''correct_category'', PStr ''meeting'')]) =
     (None, PersistentMemory_init\<lparr> db_user_feedback :=
         (db_user_feedback PersistentMemory_init)(''feedback_'' @ ''t1'' \<mapsto>
            \<lparr> fb_event_id = ''ghost'', fb_type = ''classification_correction'',
              fb_value = PDict [(''correct_category'', PStr ''meeting'')],
              fb_timestamp = 1 \<rparr>) \<rparr>)
   \<and> user_preferences
         (snd (add_user_feedback (\<lambda>v. []) PersistentMemory_init ''t1'' 1 ''ghost''
                 ''classification_correction'' (PDict [(''correct_category'', PStr ''meeting'')])))
       = user_preferences PersistentMemory_init
   \<and> db_user_preferences
         (snd (add_user_feedback (\<lambda>v. []) PersistentMemory_init ''t1'' 1 ''ghost''
                 ''classification_correction'' (PDict [(''correct_category'', PStr ''meeting'')])))
       = db_user_preferences PersistentMemory_init"
proof (rule C6_unknown_event_no_preference_update)
qed (simp_all add: PersistentMemory_init_def get_event_def)

section \<open>Claims about the performance monitor\<close>

text \<open>
  C8.  The metrics buffer of the monitor (capacity 1000) is first-in first-out: after
  1001 tracked operations it holds exactly 1000 metrics, the oldest of them the one of
  the second operation, so the first was evicted; and after any run of the calls that
  write the buffer its length is at most 1000.
\<close>

theorem C8_ring_buffer_fifo:
  assumes "length ops = 1001"
  shows "length (metrics_buffer (foldl track performance_monitor ops)) = 1000
       \<and> hd (metrics_buffer (foldl track performance_monitor ops)) = metric_of (ops ! 1)
       \<and> metrics_buffer (foldl track performance_monitor ops) = map metric_of (tl ops)
       \<and> length (metrics_buffer (foldl apply_call performance_monitor calls)) \<le> 1000"
proof -
  have init: "metrics_buffer performance_monitor = []" "buffer_size performance_monitor = 1000"
    by (simp_all add: performance_monitor_def PerformanceMonitor_init_def)
  have "metrics_buffer (foldl track performance_monitor ops)
          = drop (length ops - 1000) (map metric_of ops)"
    using foldl_track_buffer[of performance_monitor ops] by (simp add: init)
  also have "\<dots> = map metric_of (tl ops)"
    using assms by (simp add: drop_Suc drop_map)
  finally have buf: "metrics_buffer (foldl track performance_monitor ops) = map metric_of (tl ops)" .
  from assms obtain a b rest where ops: "ops = a # b # rest"
    by (cases ops; cases "tl ops") auto
  have bound: "length (metrics_buffer (foldl apply_call performance_monitor calls)) \<le> 1000"
    using foldl_apply_call_buffer[of performance_monitor calls] by (simp add: init)
  have "length (map metric_of (tl ops)) = 1000"
    using assms by simp
  moreover have "hd (map metric_of (tl ops)) = metric_of (ops ! 1)"
    by (simp add: ops)
  ultimately show ?thesis
    unfolding buf using bound by simp
qed

theorem C8_ring_buffer_fifo_witness:
  "length (metrics_buffer (foldl track performance_monitor
       (replicate 1001 \<lparr> tr_operation_id = ''op'', tr_agent = ''classifier'',
          tr_type = ''classify'', tr_context = None, tr_started = 0, tr_ended = 2,
          tr_now = 0, tr_success = True, tr_result_data = None, tr_error_info = None \<rparr>)))
     = 1000
   \<and> length (metrics_buffer (foldl apply_call performance_monitor
       [RecordToolUsage 0 ''classifier'' ''classify_category'' 1 True])) \<le> 1000"
  using C8_ring_buffer_fifo
    [of "replicate 1001 \<lparr> tr_operation_id = ''op'', tr_agent = ''classifier'',
          tr_type = ''classify'', tr_context = None, tr_started = 0, tr_ended = 2,
          tr_now = 0, tr_success = True, tr_result_data = None, tr_error_info = None \<rparr>"
        "[RecordToolUsage 0 ''classifier'' ''classify_category'' 1 True]"]
  by simp

text \<open>
  C9.  Ending a tracked operation always records its metric (the newest entry of the
  buffer carries the measured duration).  A warning for a slow operation is logged
  exactly when the duration exceeds \<^verbatim>\<open>max_execution_time\<close> (30 seconds by
  default: 35 warns, 12 does not), and a warning for a low success rate only when the
  agent's operations, this one included, number 10 or more and its success rate is
  below \<^verbatim>\<open>min_success_rate\<close>.  No other warning is logged.
\<close>

theorem C9_end_operation_alerts:
  assumes "active_operations m operation_id = Some operation"
      and "0 < buffer_size m"
  shows "(let m' = end_operation m end_time now operation_id succeeded result_data error_info;
              agent = op_agent_name operation;
              execution_time = end_time - start_time operation;
              stats = stats_entry m' agent;
              success_rate = of_nat (successful_operations stats) / of_nat (total_operations stats)
          in metric_name (last (metrics_buffer m')) = ''operation_execution_time''
           \<and> metric_value (last (metrics_buffer m')) = execution_time
           \<and> agent_name (last (metrics_buffer m')) = agent
           \<and> total_operations stats = total_operations (stats_entry m agent) + 1
           \<and> warnings m' = warnings m
               @ (if execution_time > max_execution_time (thresholds m)
                  then [SlowOperation agent execution_time] else [])
               @ (if total_operations stats \<ge> 10 \<and> success_rate < min_success_rate (thresholds m)
                  then [LowSuccessRate agent success_rate] else []))"
  using assms
  by (simp add: end_operation_def check_performance_thresholds_def stats_entry_def Let_def
        last_deque_append split: option.splits)

theorem C9_end_operation_alerts_witness:
  "warnings (end_operation
       (start_operation performance_monitor 0 ''op1'' ''classifier'' ''classify'' None)
       35 0 ''op1'' True None None) = [SlowOperation ''classifier'' 35]
   \<and> metric_value (last (metrics_buffer (end_operation
       (start_operation performance_monitor 0 ''op1'' ''classifier'' ''classify'' None)
       35 0 ''op1'' True None None))) = 35
   \<and> warnings (end_operation
       (start_operation performance_monitor 0 ''op1'' ''classifier'' ''classify'' None)
       12 0 ''op1'' True None None) = []
   \<and> metric_value (last (metrics_buffer (end_operation
       (start_operation performance_monitor 0 ''op1'' ''classifier'' ''classify'' None)
       12 0 ''op1'' True None None))) = 12"
proof -
  let ?m = "start_operation performance_monitor 0 ''op1'' ''classifier'' ''classify'' None"
  let ?op = "\<lparr> op_agent_name = ''classifier'', operation_type = ''classify'',
               start_time = 0, op_context = [] \<rparr>"
  have a: "active_operations ?m ''op1'' = Some ?op"
    by (simp add: start_operation_def)
  have b: "0 < buffer_size ?m"
    by (simp add: start_operation_def performance_monitor_def PerformanceMonitor_init_def)
  have c: "warnings ?m = []" "thresholds ?m = thresholds (PerformanceMonitor_init 1000)"
    "stats_entry ?m ''classifier'' = default_stats"
    by (simp_all add: start_operation_def performance_monitor_def PerformanceMonitor_init_def
          stats_entry_def)
  show ?thesis
    using C9_end_operation_alerts[OF a b, of 35 0 True None None]
          C9_end_operation_alerts[OF a b, of 12 0 True None None]
    by (simp add: Let_def c default_stats_def PerformanceMonitor_init_def)
qed

text \<open>
  C10.  Ending an operation whose id is not in flight changes nothing but the log: one
  warning is appended; the metrics buffer, every agent's counters and the operations in
  flight are what they were.
\<close>

theorem C10_unknown_operation:
  assumes "active_operations m operation_id = None"
  shows "end_operation m end_time now operation_id succeeded result_data error_info
           = m\<lparr> warnings := warnings m @ [OperationNotFound operation_id] \<rparr>
       \<and> metrics_buffer (end_operation m end_time now operation_id succeeded result_data error_info)
           = metrics_buffer m
       \<and> agent_stats (end_operation m end_time now operation_id succeeded result_data error_info)
           = agent_stats m
       \<and> active_operations (end_operation m end_time now operation_id succeeded result_data error_info)
           = active_operations m"
  using assms by (simp add: end_operation_def)

theorem C10_unknown_operation_witness:
  "end_operation performance_monitor 5 0 ''ghost'' True None None
     = performance_monitor\<lparr> warnings := warnings performance_monitor @ [OperationNotFound ''ghost''] \<rparr>
   \<and> metrics_buffer (end_operation performance_monitor 5 0 ''ghost'' True None None)
       = metrics_buffer performance_monitor
   \<and> agent_stats (end_operation performance_monitor 5 0 ''ghost'' True None None)
       = agent_stats performance_monitor
   \<and> active_operations (end_operation performance_monitor 5 0 ''ghost'' True None None)
       = active_operations performance_monitor"
proof (rule C10_unknown_operation)
qed (simp add: performance_monitor_def PerformanceMonitor_init_def)

section \<open>Claims about the orchestrator\<close>

text \<open>
  C2 (as amended).  The claim: the cycle reports success when at least one analysis
  branch succeeds, and failure when all three fail, the workflow event being stored
  either way.  The code never looks at how many branches failed.  What holds: for every
  cycle over a non-empty batch whose event id is not taken, the cycle reports success
  when at least one branch succeeds and also when all three fail (whatever the branches
  do), its one result is a successful \<^verbatim>\<open>ToolResult\<close> holding the workflow result,
  and the workflow result is stored as a \<^verbatim>\<open>workflow_execution\<close> event of
  importance 0.8.  When the branches run in parallel and all three raise, the analysis
  results stored are the three empty sections.
\<close>

theorem C2_cycle_success_whatever_branches_do:
  assumes "fetched_emails env \<noteq> []"
      and "db_memory_events mem (''workflow_execution_'' @ event_stamp env) = None"
  shows "cycle_success (fst (run_cycle tools fmt estr settings env mem))
       \<and> fst (run_cycle tools fmt estr settings env mem) =
           CycleCompleted [cycle_action env]
             [\<lparr> success = True,
                result = Some (cycle_workflow_result tools fmt estr settings env),
                error = None \<rparr>] True
       \<and> db_memory_events (snd (run_cycle tools fmt estr settings env mem))
             (''workflow_execution_'' @ event_stamp env)
           = Some \<lparr> ev_id = ''workflow_execution_'' @ event_stamp env,
                    ev_timestamp = event_now env,
                    ev_type = ''workflow_execution'',
                    ev_data = workflow_result_dict
                                (cycle_workflow_result tools fmt estr settings env),
                    ev_importance = 8/10,
                    ev_tags = [''workflow'', ''email_processing''] \<rparr>
       \<and> (parallel_processing settings
            \<and> isl (branch_outcome env ClassificationBranch)
            \<and> isl (branch_outcome env OrganizationBranch)
            \<and> isl (branch_outcome env ResponseBranch)
          \<longrightarrow> analysis_results (cycle_workflow_result tools fmt estr settings env)
               = Some \<lparr> total_emails = length (fetched_emails env),
                        classification_results = PList [],
                        organization_suggestions = PList [],
                        response_candidates = PList [] \<rparr>)"
proof -
  have fresh: "db_memory_events mem (''workflow_execution'' @ ''_'' @ event_stamp env) = None"
    using assms(2) by simp
  note cycle = run_cycle_nonempty[OF assms, of tools fmt estr settings]
  have stored: "db_memory_events (snd (run_cycle tools fmt estr settings env mem))
                  (''workflow_execution_'' @ event_stamp env)
                = Some \<lparr> ev_id = ''workflow_execution_'' @ event_stamp env,
                    ev_timestamp = event_now env,
                    ev_type = ''workflow_execution'',
                    ev_data = workflow_result_dict
                                (cycle_workflow_result tools fmt estr settings env),
                    ev_importance = 8/10,
                    ev_tags = [''workflow'', ''email_processing''] \<rparr>"
    using add_event_fresh[OF fresh, of "event_now env"
            "workflow_result_dict (cycle_workflow_result tools fmt estr settings env)"
            "8/10" "Some [''workflow'', ''email_processing'']"]
    by (simp add: cycle)
  have empty: "analysis_results (cycle_workflow_result tools fmt estr settings env)
               = Some \<lparr> total_emails = length (fetched_emails env),
                        classification_results = PList [],
                        organization_suggestions = PList [],
                        response_candidates = PList [] \<rparr>"
    if par: "parallel_processing settings"
      and c: "isl (branch_outcome env ClassificationBranch)"
      and og: "isl (branch_outcome env OrganizationBranch)"
      and r: "isl (branch_outcome env ResponseBranch)"
  proof -
    have "\<forall>b. isl (branch_outcome env b)"
    proof
      fix b show "isl (branch_outcome env b)"
        using c og r by (cases b) simp_all
    qed
    then show ?thesis
      using par
      by (simp add: cycle_workflow_result_def run_email_analysis_pipeline_def Let_def
            foldl_collect_result_all_raised perceive_def)
  qed
  show ?thesis
    using stored empty by (simp add: cycle cycle_success_def)
qed

theorem C2_cycle_success_whatever_branches_do_witness:
  "cycle_success (fst (run_cycle email_tools (\<lambda>v. []) (\<lambda>e. ''error'') workflow_settings
       \<lparr> fetched_emails = [\<lparr> msg_id = ''m1'', msg_subject = ''Budget?'', msg_sender = ''a@b.c'',
                             msg_recipients = [''me@b.c''], msg_body = ''Can you review?'',
                             msg_html_body = None, msg_date = ''2024-01-01T09:00:00'',
                             msg_labels = [], msg_is_read = False, msg_is_important = False,
                             msg_attachments = [] \<rparr>],
         branch_outcome = (\<lambda>b. case b of
             ClassificationBranch \<Rightarrow>
               Inr [(''classifications'',
                       PList [PDict [(''email_id'', PStr ''m1''), (''category'', PStr ''work''),
                                     (''confidence'', PFloat (8/10))]])]
           | OrganizationBranch \<Rightarrow> Inl (Raised ''timeout'')
           | ResponseBranch \<Rightarrow> Inl (Raised ''timeout'')),
         completion_order = [ResponseBranch, ClassificationBranch, OrganizationBranch],
         monitor_outcome = Inr PNone,
         clock_start = ''t0'', clock_action = ''t1'', clock_end = ''t2'',
         event_stamp = ''t3'', event_now = 3 \<rparr>
       PersistentMemory_init))
   \<and> db_memory_events (snd (run_cycle email_tools (\<lambda>v. []) (\<lambda>e. ''error'') workflow_settings
       \<lparr> fetched_emails = [\<lparr> msg_id = ''m1'', msg_subject = ''Budget?'', msg_sender = ''a@b.c'',
                             msg_recipients = [''me@b.c''], msg_body = ''Can you review?'',
                             msg_html_body = None, msg_date = ''2024-01-01T09:00:00'',
                             msg_labels = [], msg_is_read = False, msg_is_important = False,
                             msg_attachments = [] \<rparr>],
         branch_outcome = (\<lambda>b. case b of
             ClassificationBranch \<Rightarrow>
               Inr [(''classifications'',
                       PList [PDict [(''email_id'', PStr ''m1''), (''category'', PStr ''work''),
                                     (''confidence'', PFloat (8/10))]])]
           | OrganizationBranch \<Rightarrow> Inl (Raised ''timeout'')
           | ResponseBranch \<Rightarrow> Inl (Raised ''timeout'')),
         completion_order = [ResponseBranch, ClassificationBranch, OrganizationBranch],
         monitor_outcome = Inr PNone,
         clock_start = ''t0'', clock_action = ''t1'', clock_end = ''t2'',
         event_stamp = ''t3'', event_now = 3 \<rparr>
       PersistentMemory_init)) ''workflow_execution_t3'' \<noteq> None"
proof -
  let ?env = "\<lparr> fetched_emails = [\<lparr> msg_id = ''m1'', msg_subject = ''Budget?'', msg_sender = ''a@b.c'',
                             msg_recipients = [''me@b.c''], msg_body = ''Can you review?'',
                             msg_html_body = None, msg_date = ''2024-01-01T09:00:00'',
                             msg_labels = [], msg_is_read = False, msg_is_important = False,
                             msg_attachments = [] \<rparr>],
         branch_outcome = (\<lambda>b. case b of
             ClassificationBranch \<Rightarrow>
               Inr [(''classifications'',
                       PList [PDict [(''email_id'', PStr ''m1''), (''category'', PStr ''work''),
                                     (''confidence'', PFloat (8/10))]])]
           | OrganizationBranch \<Rightarrow> Inl (Raised ''timeout'')
           | ResponseBranch \<Rightarrow> Inl (Raised ''timeout'')),
         completion_order = [ResponseBranch, ClassificationBranch, OrganizationBranch],
         monitor_outcome = Inr PNone,
         clock_start = ''t0'', clock_action = ''t1'', clock_end = ''t2'',
         event_stamp = ''t3'', event_now = 3 \<rparr>"
  have a: "fetched_emails ?env \<noteq> []" by simp
  have b: "db_memory_events PersistentMemory_init (''workflow_execution_'' @ event_stamp ?env) = None"
    by (simp add: PersistentMemory_init_def)
  note c = C2_cycle_success_whatever_branches_do
             [OF a b, of email_tools "\<lambda>v. []" "\<lambda>e. ''error''" workflow_settings]
  have ok: "cycle_success (fst (run_cycle email_tools (\<lambda>v. []) (\<lambda>e. ''error'')
              workflow_settings ?env PersistentMemory_init))"
    using c by (rule conjunct1)
  have "db_memory_events (snd (run_cycle email_tools (\<lambda>v. []) (\<lambda>e. ''error'')
              workflow_settings ?env PersistentMemory_init))
          (''workflow_execution_'' @ event_stamp ?env) \<noteq> None"
    using c by simp
  then have stored: "db_memory_events (snd (run_cycle email_tools (\<lambda>v. []) (\<lambda>e. ''error'')
              workflow_settings ?env PersistentMemory_init)) ''workflow_execution_t3'' \<noteq> None"
    by simp
  from ok stored show ?thesis by (rule conjI)
qed

text \<open>
  The claim fails where all three branches raise: the cycle over a batch of one email
  reports success, not failure.
\<close>

theorem C2_all_branches_fail_counterexample:
  "cycle_success (fst (run_cycle email_tools (\<lambda>v. []) (\<lambda>e. ''error'') workflow_settings
       \<lparr> fetched_emails = [\<lparr> msg_id = ''m1'', msg_subject = ''Budget?'', msg_sender = ''a@b.c'',
                             msg_recipients = [''me@b.c''], msg_body = ''Can you review?'',
                             msg_html_body = None, msg_date = ''2024-01-01T09:00:00'',
                             msg_labels = [], msg_is_read = False, msg_is_important = False,
                             msg_attachments = [] \<rparr>],
         branch_outcome = (\<lambda>b. Inl (Raised ''timeout'')),
         completion_order = [ClassificationBranch, OrganizationBranch, ResponseBranch],
         monitor_outcome = Inr PNone,
         clock_start = ''t0'', clock_action = ''t1'', clock_end = ''t2'',
         event_stamp = ''t3'', event_now = 3 \<rparr>
       PersistentMemory_init)) = True"
proof -
  let ?env = "\<lparr> fetched_emails = [\<lparr> msg_id = ''m1'', msg_subject = ''Budget?'', msg_sender = ''a@b.c'',
                             msg_recipients = [''me@b.c''], msg_body = ''Can you review?'',
                             msg_html_body = None, msg_date = ''2024-01-01T09:00:00'',
                             msg_labels = [], msg_is_read = False, msg_is_important = False,
                             msg_attachments = [] \<rparr>],
         branch_outcome = (\<lambda>b. Inl (Raised ''timeout'') :: exn + pydict),
         completion_order = [ClassificationBranch, OrganizationBranch, ResponseBranch],
         monitor_outcome = Inr PNone,
         clock_start = ''t0'', clock_action = ''t1'', clock_end = ''t2'',
         event_stamp = ''t3'', event_now = 3 \<rparr>"
  have a: "fetched_emails ?env \<noteq> []" by simp
  have b: "db_memory_events PersistentMemory_init (''workflow_execution_'' @ event_stamp ?env) = None"
    by (simp add: PersistentMemory_init_def)
  show ?thesis
    by (simp add: run_cycle_nonempty[OF a b] cycle_success_def)
qed

text \<open>
  C3 (as amended).  The claim: a classification at or above 0.7 is immediate, and a
  response at or above 0.8 is sent when auto-send is on.  The tests of the code are
  strict (\<^verbatim>\<open>> 0.7\<close>, \<^verbatim>\<open>> 0.8\<close>), so an item exactly at its threshold needs
  approval.  What holds: for well-formed analysis results the plan is exactly this.
  With \<^verbatim>\<open>auto_classify\<close>, a classification of confidence above 0.7 gives an
  immediate \<^verbatim>\<open>apply_classification\<close>, and one of confidence 0.7 or less a
  \<^verbatim>\<open>review_classification\<close> that needs approval.  With \<^verbatim>\<open>auto_organize\<close>,
  every organization suggestion is immediate.  A response is an immediate
  \<^verbatim>\<open>send_response\<close> when \<^verbatim>\<open>auto_send_responses\<close> is set and its confidence is
  above 0.8, and a \<^verbatim>\<open>review_response\<close> that needs approval otherwise.  Each bucket
  keeps the order of the results, classifications first.
\<close>

theorem C3_plan_by_strict_thresholds:
  assumes "\<forall>c \<in> set cs. classification_ok c"
      and "\<forall>x \<in> set xs. suggestion_ok x"
      and "\<forall>r \<in> set rs. response_ok r"
  shows "coordinate_workflow_execution settings
           \<lparr> total_emails = n, classification_results = PList cs,
             organization_suggestions = PList xs, response_candidates = PList rs \<rparr>
         = Inr \<lparr> immediate_actions =
                   (if auto_classify settings
                    then map apply_classification_action
                           (filter (\<lambda>c. confidence_of c > 7/10) cs)
                    else [])
                   @ (if auto_organize settings then map apply_organization_action xs else [])
                   @ map send_response_action
                       (filter (\<lambda>r. auto_send_responses settings \<and> confidence_of r > 8/10) rs),
                 user_approval_needed =
                   (if auto_classify settings
                    then map review_classification_action
                           (filter (\<lambda>c. \<not> confidence_of c > 7/10) cs)
                    else [])
                   @ map review_response_action
                       (filter (\<lambda>r. \<not> (auto_send_responses settings \<and> confidence_of r > 8/10)) rs),
                 scheduled_actions = [],
                 completed_actions = [] \<rparr>"
  by (simp add: coordinate_workflow_execution_def Let_def py_iter_def ebind_def
        efold_plan_classification[OF assms(1)] efold_plan_organization[OF assms(2)]
        efold_plan_response[OF assms(3)])

theorem C3_plan_by_strict_thresholds_witness:
  "coordinate_workflow_execution workflow_settings
     \<lparr> total_emails = 2,
       classification_results =
         PList [PDict [(''email_id'', PStr ''m1''), (''category'', PStr ''work''),
                       (''confidence'', PFloat (75/100))],
                PDict [(''email_id'', PStr ''m2''), (''category'', PStr ''spam''),
                       (''confidence'', PFloat (65/100))]],
       organization_suggestions = PList [],
       response_candidates = PList [] \<rparr>
   = Inr \<lparr> immediate_actions =
             [PDict [(''type'', PStr ''apply_classification''), (''email_id'', PStr ''m1''),
                     (''category'', PStr ''work''), (''confidence'', PFloat (75/100))]],
           user_approval_needed =
             [PDict [(''type'', PStr ''review_classification''), (''email_id'', PStr ''m2''),
                     (''suggested_category'', PStr ''spam''), (''confidence'', PFloat (65/100))]],
           scheduled_actions = [],
           completed_actions = [] \<rparr>"
  using C3_plan_by_strict_thresholds
    [of "[PDict [(''email_id'', PStr ''m1''), (''category'', PStr ''work''),
                 (''confidence'', PFloat (75/100))],
          PDict [(''email_id'', PStr ''m2''), (''category'', PStr ''spam''),
                 (''confidence'', PFloat (65/100))]]"
        "[]" "[]" workflow_settings 2]
  by (simp add: classification_ok_def is_number_def py_num_def confidence_of_def item_of_def
        dict_get_def workflow_settings_def apply_classification_action_def
        review_classification_action_def)

text \<open>
  The claim fails at the thresholds: a classification of confidence exactly 0.7 is not
  immediate but needs approval, and so does a response of confidence exactly 0.8 with
  auto-send on.
\<close>

theorem C3_at_threshold_counterexample:
  "coordinate_workflow_execution (workflow_settings\<lparr> auto_send_responses := True \<rparr>)
     \<lparr> total_emails = 1,
       classification_results =
         PList [PDict [(''email_id'', PStr ''m1''), (''category'', PStr ''work''),
                       (''confidence'', PFloat (7/10))]],
       organization_suggestions = PList [],
       response_candidates =
         PList [PDict [(''email_id'', PStr ''m1''), (''response_text'', PStr ''Thanks''),
                       (''intent'', PStr ''question''), (''confidence'', PFloat (8/10))]] \<rparr>
   = Inr \<lparr> immediate_actions = [],
           user_approval_needed =
             [PDict [(''type'', PStr ''review_classification''), (''email_id'', PStr ''m1''),
                     (''suggested_category'', PStr ''work''), (''confidence'', PFloat (7/10))],
              PDict [(''type'', PStr ''review_response''), (''email_id'', PStr ''m1''),
                     (''response_text'', PStr ''Thanks''), (''confidence'', PFloat (8/10))]],
           scheduled_actions = [],
           completed_actions = [] \<rparr>"
  by (simp add: coordinate_workflow_execution_def Let_def py_iter_def ebind_def
        plan_classification_def plan_response_def py_get_def py_getitem_def py_gt_def
        py_num_def dict_get_def workflow_settings_def)

text \<open>
  C4 (as amended).  The claim: a cycle that perceives an empty batch ends at once and
  produces an empty, successful WorkflowExecution.  The code produces none: \<^verbatim>\<open>think\<close>
  returns no action before anything is planned, so the loop of \<^verbatim>\<open>act\<close> never
  runs.  What holds: for every cycle whose batch is empty, \<^verbatim>\<open>think\<close> plans no
  action, \<^verbatim>\<open>act\<close> returns no result and leaves the memory as it was (no workflow
  result is built, no event is stored), and the cycle reports success with an empty
  list of results.
\<close>

theorem C4_empty_batch:
  assumes "fetched_emails env = []"
  shows "think (perceive env) = Inr []
       \<and> act tools fmt estr settings env mem [] = (Inr [], mem)
       \<and> run_cycle tools fmt estr settings env mem = (CycleCompleted [] [] True, mem)
       \<and> cycle_success (fst (run_cycle tools fmt estr settings env mem))"
  using assms
  by (simp add: think_def perceive_def run_cycle_def act_def cycle_success_def Let_def)

theorem C4_empty_batch_witness:
  "run_cycle email_tools (\<lambda>v. []) (\<lambda>e. ''error'') workflow_settings
     \<lparr> fetched_emails = [],
       branch_outcome = (\<lambda>b. Inl (Raised ''not called'')),
       completion_order = [],
       monitor_outcome = Inr PNone,
       clock_start = ''t0'', clock_action = ''t1'', clock_end = ''t2'',
       event_stamp = ''t3'', event_now = 3 \<rparr>
     PersistentMemory_init
   = (CycleCompleted [] [] True, PersistentMemory_init)"
  using C4_empty_batch
    [of "\<lparr> fetched_emails = [],
          branch_outcome = (\<lambda>b. Inl (Raised ''not called'')),
          completion_order = [],
          monitor_outcome = Inr PNone,
          clock_start = ''t0'', clock_action = ''t1'', clock_end = ''t2'',
          event_stamp = ''t3'', event_now = 3 \<rparr>"
        email_tools "\<lambda>v. []" "\<lambda>e. ''error''" workflow_settings PersistentMemory_init]
  by simp

text \<open>
  The claim fails on the empty batch: the cycle over it, started on a fresh memory,
  returns no workflow result at all, and the memory holds no event afterwards, neither
  in its cache nor under the id a \<^verbatim>\<open>workflow_execution\<close> event of this cycle would
  have.
\<close>

theorem C4_no_workflow_execution_counterexample:
  "fst (run_cycle email_tools (\<lambda>v. []) (\<lambda>e. ''error'') workflow_settings
     \<lparr> fetched_emails = [],
       branch_outcome = (\<lambda>b. Inr []),
       completion_order = [ClassificationBranch, OrganizationBranch, ResponseBranch],
       monitor_outcome = Inr PNone,
       clock_start = ''s0'', clock_action = ''s1'', clock_end = ''s2'',
       event_stamp = ''s3'', event_now = 7 \<rparr>
     PersistentMemory_init) = CycleCompleted [] [] True
   \<and> recent_events (snd (run_cycle email_tools (\<lambda>v. []) (\<lambda>e. ''error'') workflow_settings
     \<lparr> fetched_emails = [],
       branch_outcome = (\<lambda>b. Inr []),
       completion_order = [ClassificationBranch, OrganizationBranch, ResponseBranch],
       monitor_outcome = Inr PNone,
       clock_start = ''s0'', clock_action = ''s1'', clock_end = ''s2'',
       event_stamp = ''s3'', event_now = 7 \<rparr>
     PersistentMemory_init)) = []
   \<and> db_memory_events (snd (run_cycle email_tools (\<lambda>v. []) (\<lambda>e. ''error'') workflow_settings
     \<lparr> fetched_emails = [],
       branch_outcome = (\<lambda>b. Inr []),
       completion_order = [ClassificationBranch, OrganizationBranch, ResponseBranch],
       monitor_outcome = Inr PNone,
       clock_start = ''s0'', clock_action = ''s1'', clock_end = ''s2'',
       event_stamp = ''s3'', event_now = 7 \<rparr>
     PersistentMemory_init)) ''workflow_execution_s3'' = None"
proof -
  let ?env = "\<lparr> fetched_emails = [],
       branch_outcome = (\<lambda>b. Inr []),
       completion_order = [ClassificationBranch, OrganizationBranch, ResponseBranch],
       monitor_outcome = Inr PNone,
       clock_start = ''s0'', clock_action = ''s1'', clock_end = ''s2'',
       event_stamp = ''s3'', event_now = 7 \<rparr>"
  have "fetched_emails ?env = []" by simp
  then have "run_cycle email_tools (\<lambda>v. []) (\<lambda>e. ''error'') workflow_settings ?env
               PersistentMemory_init
             = (CycleCompleted [] [] True, PersistentMemory_init)"
    by (rule run_cycle_empty)
  then show ?thesis
    by (simp add: PersistentMemory_init_def)
qed

text \<open>
  C7.  Executing a plan runs every immediate action, in order, each inside its own
  \<^verbatim>\<open>try\<close>: an action that returns False or raises is counted as failed and the
  next action runs.  The tally counts every action once (the successful ones are those
  whose execution returned True), the details hold one entry per action, and the cycle
  keeps the tally: when the cycle's plan is \<open>plan\<close>, the workflow result of the cycle
  holds the execution results of \<open>plan\<close>.
\<close>

theorem C7_actions_isolated_and_tallied:
  "successful_actions (execute_workflow_actions tools fmt estr now plan)
     = length (filter (\<lambda>a. execute_single_action tools fmt a = Inr True) (immediate_actions plan))
   \<and> failed_actions (execute_workflow_actions tools fmt estr now plan)
     = length (filter (\<lambda>a. execute_single_action tools fmt a \<noteq> Inr True) (immediate_actions plan))
   \<and> successful_actions (execute_workflow_actions tools fmt estr now plan)
       + failed_actions (execute_workflow_actions tools fmt estr now plan)
     = length (immediate_actions plan)
   \<and> action_details (execute_workflow_actions tools fmt estr now plan)
     = map (action_detail tools fmt estr now) (immediate_actions plan)
   \<and> (fetched_emails env \<noteq> []
        \<and> db_memory_events mem (''workflow_execution_'' @ event_stamp env) = None
        \<and> cycle_plan settings env = Some plan
      \<longrightarrow> (\<exists>w mem'.
             run_cycle tools fmt estr settings env mem
               = (CycleCompleted [cycle_action env]
                    [\<lparr> success = True, result = Some w, error = None \<rparr>] True, mem')
           \<and> execution_results w
               = Some (execute_workflow_actions tools fmt estr (clock_action env) plan)))"
proof -
  have tally: "execute_workflow_actions tools fmt estr now plan =
      \<lparr> successful_actions =
          length (filter (\<lambda>a. execute_single_action tools fmt a = Inr True) (immediate_actions plan)),
        failed_actions =
          length (filter (\<lambda>a. execute_single_action tools fmt a \<noteq> Inr True) (immediate_actions plan)),
        action_details = map (action_detail tools fmt estr now) (immediate_actions plan) \<rparr>"
    by (simp add: execute_workflow_actions_def foldl_execute_action)
  have total: "length (filter (\<lambda>a. execute_single_action tools fmt a = Inr True) (immediate_actions plan))
      + length (filter (\<lambda>a. execute_single_action tools fmt a \<noteq> Inr True) (immediate_actions plan))
      = length (immediate_actions plan)"
    by (rule sum_length_filter_compl)
  have kept: "\<exists>w mem'.
             run_cycle tools fmt estr settings env mem
               = (CycleCompleted [cycle_action env]
                    [\<lparr> success = True, result = Some w, error = None \<rparr>] True, mem')
           \<and> execution_results w
               = Some (execute_workflow_actions tools fmt estr (clock_action env) plan)"
    if "fetched_emails env \<noteq> []"
      and "db_memory_events mem (''workflow_execution_'' @ event_stamp env) = None"
      and "cycle_plan settings env = Some plan"
    using run_cycle_nonempty[OF that(1,2), of tools fmt estr settings] that(3)
    by (simp add: cycle_workflow_result_def)
  show ?thesis
    using total kept by (simp add: tally)
qed

theorem C7_actions_isolated_and_tallied_witness:
  "successful_actions (execute_workflow_actions email_tools (\<lambda>v. []) (\<lambda>e. ''KeyError'') ''t1''
       \<lparr> immediate_actions =
           [PDict [(''type'', PStr ''apply_organization''), (''action'', PStr ''apply_label''),
                   (''target'', PStr ''m1''), (''confidence'', PFloat (7/10))],
            PDict [(''type'', PStr ''apply_classification''), (''email_id'', PStr ''m1''),
                   (''category'', PStr ''work''), (''confidence'', PFloat (8/10))],
            PDict [(''type'', PStr ''unknown'')]],
         user_approval_needed = [], scheduled_actions = [], completed_actions = [] \<rparr>) = 1
   \<and> failed_actions (execute_workflow_actions email_tools (\<lambda>v. []) (\<lambda>e. ''KeyError'') ''t1''
       \<lparr> immediate_actions =
           [PDict [(''type'', PStr ''apply_organization''), (''action'', PStr ''apply_label''),
                   (''target'', PStr ''m1''), (''confidence'', PFloat (7/10))],
            PDict [(''type'', PStr ''apply_classification''), (''email_id'', PStr ''m1''),
                   (''category'', PStr ''work''), (''confidence'', PFloat (8/10))],
            PDict [(''type'', PStr ''unknown'')]],
         user_approval_needed = [], scheduled_actions = [], completed_actions = [] \<rparr>) = 2"
  using C7_actions_isolated_and_tallied
    [of email_tools "\<lambda>v. []" "\<lambda>e. ''KeyError''" "''t1''"
        "\<lparr> immediate_actions =
           [PDict [(''type'', PStr ''apply_organization''), (''action'', PStr ''apply_label''),
                   (''target'', PStr ''m1''), (''confidence'', PFloat (7/10))],
            PDict [(''type'', PStr ''apply_classification''), (''email_id'', PStr ''m1''),
                   (''category'', PStr ''work''), (''confidence'', PFloat (8/10))],
            PDict [(''type'', PStr ''unknown'')]],
         user_approval_needed = [], scheduled_actions = [], completed_actions = [] \<rparr>"
        "\<lparr> fetched_emails = [], branch_outcome = (\<lambda>b. Inl (Raised ''none'')),
          completion_order = [], monitor_outcome = Inr PNone,
          clock_start = ''t0'', clock_action = ''t1'', clock_end = ''t2'',
          event_stamp = ''t3'', event_now = 3 \<rparr>"
        PersistentMemory_init workflow_settings]
  by (simp add: execute_single_action_def py_get_def py_getitem_def dict_get_def ebind_def
        email_tools_def py_format_def)


end
